theory Spec2Isabelle
  imports Complex_Main "HOL-Library.Char_ord" "HOL-Library.List_Lexorder" "HOL-Library.Sublist"
    "HOL-Library.Word"
begin

section \<open>Python strings and cell values\<close>

text \<open>
  Strings are lists of characters; a character stands for the Unicode code point of the
  same number, so the model covers the code points 0 to 255. The predicates below are
  Python's \<open>str.isspace\<close> and \<open>str.isdigit\<close> on that range: the white space
  that \<open>str.strip\<close> removes includes the separators 28 to 31, NEL (133) and the
  no-break space (160), and \<open>str.isdigit\<close> also holds for the superscript digits
  178, 179 and 185, which \<open>int\<close> refuses.
\<close>

definition py_isspace :: "char \<Rightarrow> bool" where
  "py_isspace c =
     (let n = (of_char c :: nat)
      in (9 \<le> n \<and> n \<le> 13) \<or> (28 \<le> n \<and> n \<le> 32) \<or> n = 133 \<or> n = 160)"

definition is_decimal :: "char \<Rightarrow> bool" where
  "is_decimal c = (let n = (of_char c :: nat) in 48 \<le> n \<and> n \<le> 57)"

definition py_isdigit :: "char \<Rightarrow> bool" where
  "py_isdigit c =
     (let n = (of_char c :: nat) in is_decimal c \<or> n = 178 \<or> n = 179 \<or> n = 185)"

definition str_isdigit :: "string \<Rightarrow> bool" where
  \<comment> \<open>\<open>s.isdigit()\<close>: false on the empty string\<close>
  "str_isdigit s = (s \<noteq> [] \<and> list_all py_isdigit s)"

definition py_strip :: "string \<Rightarrow> string" where
  "py_strip s = rev (dropWhile py_isspace (rev (dropWhile py_isspace s)))"

fun py_split :: "char \<Rightarrow> string \<Rightarrow> string list" where
  "py_split sep [] = [[]]"
| "py_split sep (c # cs) =
     (if c = sep then [] # py_split sep cs
      else (case py_split sep cs of
              [] \<Rightarrow> [[c]]
            | p # ps \<Rightarrow> (c # p) # ps))"

definition digit_val :: "char \<Rightarrow> int" where
  "digit_val c = int (of_char c) - 48"

definition decimal_value :: "string \<Rightarrow> int" where
  "decimal_value s = foldl (\<lambda>acc c. 10 * acc + digit_val c) 0 s"

definition py_int :: "string \<Rightarrow> int option" where
  \<comment> \<open>\<open>int(s)\<close> for a string that passed \<open>isdigit\<close>: \<open>None\<close> is the ValueError
      raised for a superscript digit\<close>
  "py_int s = (if s \<noteq> [] \<and> list_all is_decimal s then Some (decimal_value s) else None)"

fun str_of_nat :: "nat \<Rightarrow> string" where
  "str_of_nat n =
     (if n < 10 then [char_of (48 + n)]
      else str_of_nat (n div 10) @ [char_of (48 + n mod 10)])"

definition str_of_int :: "int \<Rightarrow> string" where
  "str_of_int i = (if i < 0 then CHR ''-'' # str_of_nat (nat (- i)) else str_of_nat (nat i))"

definition pad2 :: "nat \<Rightarrow> string" where
  "pad2 n = (if n < 10 then CHR ''0'' # str_of_nat n else str_of_nat n)"

record datetime =
  year :: nat
  month :: nat
  day :: nat
  hour :: nat
  minute :: nat
  second :: nat

definition str_of_datetime :: "datetime \<Rightarrow> string" where
  \<comment> \<open>a pandas timestamp prints as \<open>YYYY-MM-DD HH:MM:SS\<close>; its years have four digits\<close>
  "str_of_datetime t =
     str_of_nat (year t) @ ''-'' @ pad2 (month t) @ ''-'' @ pad2 (day t) @ '' '' @
     pad2 (hour t) @ '':'' @ pad2 (minute t) @ '':'' @ pad2 (second t)"

text \<open>
  A cell of a dataframe: a missing value (NaN, None, NaT), a string, an integer or a
  timestamp.
\<close>

datatype cell = NA | S string | I int | T datetime

fun isna :: "cell \<Rightarrow> bool" where
  "isna NA = True"
| "isna _ = False"

fun py_str :: "cell \<Rightarrow> string" where
  "py_str NA = ''nan''"
| "py_str (S s) = s"
| "py_str (I i) = str_of_int i"
| "py_str (T t) = str_of_datetime t"

section \<open>The subproject-name validator\<close>

definition validar_subproject_name :: "cell \<Rightarrow> bool" where
  "validar_subproject_name subproject_name =
     (if isna subproject_name then False
      else let subproject_str = py_strip (py_str subproject_name) in
        if length subproject_str \<noteq> 6 then False
        else if subproject_str = ''nan'' \<or> subproject_str = [] then False
        else if subproject_str ! 4 \<noteq> CHR ''_'' then False
        else (case py_split (CHR ''_'') subproject_str of
                [year_str, num_str] \<Rightarrow>
                  if length year_str \<noteq> 4 \<or> \<not> str_isdigit year_str then False
                  else if length num_str \<noteq> 1 \<or> \<not> str_isdigit num_str then False
                  else (case py_int year_str of
                          None \<Rightarrow> False
                        | Some year_v \<Rightarrow> if year_v < 2020 then False else True)
              | _ \<Rightarrow> False))"

section \<open>Dataframes\<close>

text \<open>
  A dataframe is its header, the column labels in order with the dtype of each column,
  and its rows in order, each row the list of its cells in header order. Labels may
  repeat, as they do in pandas after a merge followed by renaming. \<open>get\<close> reads the
  column at the first position of a label, which is \<open>df[c]\<close> when the label occurs
  once; the date-consistency filter drops repeated labels before it reads a column, and
  the facts about the other functions are stated for frames with distinct labels. A
  cell beyond the end of a short row reads as missing.
\<close>

datatype dtype = Object | Category | Int64 | Int32 | Float64 | Datetime64

record frame =
  columns :: "(string \<times> dtype) list"
  rows :: "cell list list"

definition labels :: "frame \<Rightarrow> string list" where
  "labels df = map fst (columns df)"

fun index_of :: "'a \<Rightarrow> 'a list \<Rightarrow> nat" where
  "index_of x [] = 0"
| "index_of x (y # ys) = (if x = y then 0 else Suc (index_of x ys))"

definition cell_at :: "cell list \<Rightarrow> nat \<Rightarrow> cell" where
  "cell_at row i = (if i < length row then row ! i else NA)"

definition get :: "frame \<Rightarrow> string \<Rightarrow> cell list \<Rightarrow> cell" where
  \<comment> \<open>the value of \<open>df[c]\<close> at a row\<close>
  "get df c row = cell_at row (index_of c (labels df))"

definition dtype_of :: "frame \<Rightarrow> string \<Rightarrow> dtype option" where
  "dtype_of df c = map_of (columns df) c"

definition empty :: "frame \<Rightarrow> bool" where
  \<comment> \<open>\<open>df.empty\<close>: an axis of length 0\<close>
  "empty df = (rows df = [] \<or> columns df = [])"

fun duplicated_from :: "'a list \<Rightarrow> 'a list \<Rightarrow> bool list" where
  "duplicated_from seen [] = []"
| "duplicated_from seen (l # ls) = (l \<in> set seen) # duplicated_from (l # seen) ls"

definition duplicated :: "'a list \<Rightarrow> bool list" where
  \<comment> \<open>\<open>Index.duplicated()\<close>: true at every occurrence of a label after its first\<close>
  "duplicated ls = duplicated_from [] ls"

definition select_not :: "bool list \<Rightarrow> 'a list \<Rightarrow> 'a list" where
  \<comment> \<open>the entries at the positions where the flag is false\<close>
  "select_not flags xs = map snd (filter (\<lambda>(m, x). \<not> m) (zip flags xs))"

definition drop_duplicated_columns :: "frame \<Rightarrow> frame" where
  \<comment> \<open>\<open>df.loc[:, ~df.columns.duplicated()]\<close>\<close>
  "drop_duplicated_columns df =
     (let flags = duplicated (labels df)
      in df\<lparr>columns := select_not flags (columns df),
            rows := map (select_not flags) (rows df)\<rparr>)"

definition set_column :: "nat \<Rightarrow> cell list \<Rightarrow> cell list list \<Rightarrow> cell list list" where
  "set_column i vals rs = map (\<lambda>(k, r). r[i := cell_at vals k]) (enumerate 0 rs)"

section \<open>The date-consistency filter\<close>

text \<open>
  Two functions of pandas are parameters of the filter. \<open>to_datetime\<close> is
  \<open>pd.to_datetime(column, errors='coerce')\<close>, from a column to the timestamps read
  (\<open>None\<close> is NaT). \<open>pd.to_numeric(s, errors='coerce')\<close> is modelled on the strings
  of decimal digits, whose value it returns; \<open>other\<close> stands for what it does with
  every other string (signs, fractions, exponents, white space), \<open>None\<close> being NaN.
\<close>

fun dt_year :: "cell \<Rightarrow> nat option" where
  "dt_year (T t) = Some (year t)"
| "dt_year _ = None"

definition to_numeric :: "(string \<Rightarrow> rat option) \<Rightarrow> string \<Rightarrow> rat option" where
  "to_numeric other s =
     (if s \<noteq> [] \<and> list_all is_decimal s then Some (of_int (decimal_value s)) else other s)"

definition assign_datetime ::
  "(cell list \<Rightarrow> datetime option list) \<Rightarrow> frame \<Rightarrow> string \<Rightarrow> frame" where
  \<comment> \<open>\<open>df[c] = pd.to_datetime(df[c], errors='coerce')\<close>\<close>
  "assign_datetime to_datetime df c =
     (let i = index_of c (labels df);
          parsed = map (case_option NA T) (to_datetime (map (\<lambda>r. cell_at r i) (rows df)))
      in df\<lparr>columns := (columns df)[i := (c, Datetime64)],
            rows := set_column i parsed (rows df)\<rparr>)"

definition fechas_df ::
  "(cell list \<Rightarrow> datetime option list) \<Rightarrow> frame \<Rightarrow> string \<Rightarrow> frame" where
  \<comment> \<open>the local \<open>df\<close> once repeated labels are dropped and the date column is datetime\<close>
  "fechas_df to_datetime df columna_fecha =
     (let df1 = (if list_ex id (duplicated (labels df)) then drop_duplicated_columns df
                 else df)
      in if dtype_of df1 columna_fecha \<noteq> Some Datetime64
         then assign_datetime to_datetime df1 columna_fecha else df1)"

definition year_photo :: "frame \<Rightarrow> string \<Rightarrow> cell list \<Rightarrow> nat option" where
  "year_photo df columna_fecha row = dt_year (get df columna_fecha row)"

definition year_subproject ::
  "(string \<Rightarrow> rat option) \<Rightarrow> frame \<Rightarrow> string \<Rightarrow> cell list \<Rightarrow> rat option" where
  \<comment> \<open>\<open>pd.to_numeric(df[c].astype(str).str[:4], errors='coerce')\<close>\<close>
  "year_subproject other df columna_subproject row =
     to_numeric other (take 4 (py_str (get df columna_subproject row)))"

definition year_diff :: "rat option \<Rightarrow> nat option \<Rightarrow> rat option" where
  "year_diff ys yp =
     (case ys of None \<Rightarrow> None
      | Some a \<Rightarrow> (case yp of None \<Rightarrow> None | Some b \<Rightarrow> Some (a - of_nat b)))"

definition mask_valido :: "rat option \<Rightarrow> nat option \<Rightarrow> bool" where
  \<comment> \<open>a comparison with NaN is false\<close>
  "mask_valido ys yp =
     ((case year_diff ys yp of None \<Rightarrow> False | Some d \<Rightarrow> d \<le> 1) \<and> yp \<noteq> None \<and> ys \<noteq> None)"

definition filtrar_fechas_inconsistentes ::
  "(cell list \<Rightarrow> datetime option list) \<Rightarrow> (string \<Rightarrow> rat option) \<Rightarrow>
     frame \<Rightarrow> string \<Rightarrow> string \<Rightarrow> frame" where
  "filtrar_fechas_inconsistentes to_datetime other df columna_fecha columna_subproject =
     (if columna_fecha \<notin> set (labels df) \<or> columna_subproject \<notin> set (labels df) then df
      else let df2 = fechas_df to_datetime df columna_fecha
           in df2\<lparr>rows :=
                filter (\<lambda>row. mask_valido (year_subproject other df2 columna_subproject row)
                                          (year_photo df2 columna_fecha row))
                  (rows df2)\<rparr>)"

section \<open>The subproject filter and the cleaning of computer-vision records\<close>

definition filtrar_por_subproject_valido :: "frame \<Rightarrow> string \<Rightarrow> frame" where
  \<comment> \<open>on a frame without rows \<open>apply\<close> yields an empty mask that is not boolean, and
      \<open>df[mask]\<close> then selects no column\<close>
  "filtrar_por_subproject_valido df columna =
     (if columna \<notin> set (labels df) then df
      else if rows df = [] then df\<lparr>columns := [], rows := []\<rparr>
      else df\<lparr>rows := filter (\<lambda>row. validar_subproject_name (get df columna row)) (rows df)\<rparr>)"

definition cv_invalid :: "cell list" where
  "cv_invalid = [S ''No CV Result'', S ''Unknown'']"

definition limpiar_registros_cv :: "frame \<Rightarrow> frame" where
  \<comment> \<open>for a frame in which the labels \<open>genus\<close> and \<open>species\<close> are not repeated; under
      a repeated one pandas raises, which this function does not model\<close>
  "limpiar_registros_cv df =
     (if ''genus'' \<notin> set (labels df) \<or> ''species'' \<notin> set (labels df) then df
      else let df_clean = df\<lparr>rows := filter (\<lambda>row. \<not> isna (get df ''genus'' row) \<and>
                                             \<not> isna (get df ''species'' row)) (rows df)\<rparr>;
               mask1 = (\<lambda>row. get df_clean ''genus'' row \<in> set cv_invalid);
               mask2 = (\<lambda>row. get df_clean ''species'' row \<in> set cv_invalid)
           in df_clean\<lparr>rows := filter (\<lambda>row. \<not> mask1 row \<and> \<not> mask2 row) (rows df_clean)\<rparr>)"

section \<open>Example data\<close>

definition midnight :: "nat \<Rightarrow> nat \<Rightarrow> nat \<Rightarrow> datetime" where
  "midnight y m d = \<lparr>year = y, month = m, day = d, hour = 0, minute = 0, second = 0\<rparr>"

definition event_2025 :: frame where
  \<comment> \<open>two rows of event \<open>2025_1\<close>, dated 2019-01-01 and 2024-06-01\<close>
  "event_2025 =
     \<lparr>columns = [(''photo_datetime'', Datetime64), (''subproject_name'', Object)],
      rows = [[T (midnight 2019 1 1), S ''2025_1''], [T (midnight 2024 6 1), S ''2025_1'']]\<rparr>"

definition merged_example :: frame where
  \<comment> \<open>a frame with the label \<open>photo_datetime\<close> twice\<close>
  "merged_example =
     \<lparr>columns = [(''photo_datetime'', Datetime64), (''subproject_name'', Object),
                 (''photo_datetime'', Object)],
      rows = [[T (midnight 2019 1 1), S ''2025_1'', S ''2019-01-01 00:00:00''],
              [T (midnight 2024 6 1), S ''2025_1'', S ''2024-06-01 00:00:00''],
              [NA, S ''2025_1'', S []],
              [T (midnight 2026 3 9), S ''2025_1'', S ''2026-03-09 00:00:00''],
              [T (midnight 2024 6 1), NA, S ''2024-06-01 00:00:00'']]\<rparr>"

definition taxa_example :: frame where
  "taxa_example =
     \<lparr>columns = [(''genus'', Object), (''species'', Object)],
      rows = [[S ''Puma'', S ''concolor''], [NA, S ''concolor''], [S ''Unknown'', S ''sp''],
              [S ''Puma'', S ''No CV Result'']]\<rparr>"

section \<open>Dtype optimization before export\<close>

datatype error = AttributeError | ZeroDivisionError

definition column :: "frame \<Rightarrow> nat \<Rightarrow> cell list" where
  \<comment> \<open>the values of the column at position \<open>i\<close>\<close>
  "column df i = map (\<lambda>row. cell_at row i) (rows df)"

definition nunique :: "cell list \<Rightarrow> nat" where
  \<comment> \<open>\<open>Series.nunique()\<close>: the distinct values, missing ones left out\<close>
  "nunique cells = length (remdups (filter (\<lambda>c. \<not> isna c) cells))"

fun int_values :: "cell list \<Rightarrow> int list" where
  "int_values [] = []"
| "int_values (I v # cs) = v # int_values cs"
| "int_values (_ # cs) = int_values cs"

definition col_min :: "cell list \<Rightarrow> int option" where
  \<comment> \<open>\<open>Series.min()\<close> of an integer column; \<open>None\<close> is the NaN of an empty column\<close>
  "col_min cells = (case int_values cells of [] \<Rightarrow> None | v # vs \<Rightarrow> Some (fold min vs v))"

definition col_max :: "cell list \<Rightarrow> int option" where
  "col_max cells = (case int_values cells of [] \<Rightarrow> None | v # vs \<Rightarrow> Some (fold max vs v))"

fun astype_int32 :: "cell \<Rightarrow> cell" where
  \<comment> \<open>the cast of numpy from int64 to int32 keeps the low 32 bits\<close>
  "astype_int32 (I v) = I (sint (word_of_int v :: 32 word))"
| "astype_int32 c = c"

definition categorize_step :: "nat \<Rightarrow> frame \<Rightarrow> error + frame" where
  \<comment> \<open>one turn of the first loop, for the column at position \<open>i\<close>: under a repeated
      label \<open>df[col]\<close> is a frame, which has no \<open>dtype\<close>; the ratio
      \<open>num_unique / num_total < 0.5\<close> is compared exactly\<close>
  "categorize_step i df =
     (let col = fst (columns df ! i) in
      if length (filter (\<lambda>l. l = col) (labels df)) \<noteq> 1 then Inl AttributeError
      else if snd (columns df ! i) = Object then
        (let num_unique = nunique (column df i); num_total = length (rows df) in
         if num_total = 0 then Inl ZeroDivisionError
         else if 2 * num_unique < num_total
           then Inr (df\<lparr>columns := (columns df)[i := (col, Category)]\<rparr>)
           else Inr df)
      else Inr df)"

fun loop_category :: "nat list \<Rightarrow> frame \<Rightarrow> error + frame" where
  "loop_category [] df = Inr df"
| "loop_category (i # rest) df =
     (case categorize_step i df of Inl e \<Rightarrow> Inl e | Inr df' \<Rightarrow> loop_category rest df')"

definition narrow_step :: "nat \<Rightarrow> frame \<Rightarrow> frame" where
  \<comment> \<open>one turn of the second loop, for the int64 column at position \<open>i\<close>\<close>
  "narrow_step i df =
     (case (col_min (column df i), col_max (column df i)) of
        (Some lo, Some hi) \<Rightarrow>
          if lo \<ge> - 2147483648 \<and> hi \<le> 2147483647
          then df\<lparr>columns := (columns df)[i := (fst (columns df ! i), Int32)],
                  rows := map (\<lambda>row. row[i := astype_int32 (cell_at row i)]) (rows df)\<rparr>
          else df
      | _ \<Rightarrow> df)"

definition int64_positions :: "frame \<Rightarrow> nat list" where
  \<comment> \<open>\<open>select_dtypes(include=['int64']).columns\<close>, as positions\<close>
  "int64_positions df =
     filter (\<lambda>i. snd (columns df ! i) = Int64) [0..<length (columns df)]"

definition optimizar_tipos_datos :: "frame \<Rightarrow> error + frame" where
  "optimizar_tipos_datos df =
     (case loop_category [0..<length (columns df)] df of
        Inl e \<Rightarrow> Inl e
      | Inr df_optimized \<Rightarrow> Inr (fold narrow_step (int64_positions df_optimized) df_optimized))"

definition counts_example :: frame where
  "counts_example =
     \<lparr>columns = [(''project_id'', Int64), (''class'', Object), (''placename'', Object),
                 (''total'', Int64)],
      rows = [[I 2001, S ''Mammalia'', S ''a'', I 5000000000],
              [I 2002, S ''Mammalia'', S ''b'', I 7],
              [I (- 3), S ''Mammalia'', NA, I 8]]\<rparr>"

definition fits_int32 :: "cell list \<Rightarrow> bool" where
  \<comment> \<open>every integer of the column lies in the int32 range\<close>
  "fits_int32 cells =
     list_all (\<lambda>v. - 2147483648 \<le> v \<and> v \<le> 2147483647) (int_values cells)"

section \<open>The timestamp normalizer\<close>

text \<open>
  \<open>strict f col\<close> is \<open>pd.to_datetime(col, format=f, errors='coerce')\<close>: the
  timestamps read from the column under format \<open>f\<close>, \<open>None\<close> at an entry being
  NaT and \<open>None\<close> for the whole call being an exception, which the loop skips.
  \<open>generic col\<close> is the call without a format.
\<close>

definition formatos_fecha :: "string list" where
  "formatos_fecha =
     [''%Y-%m-%d %H:%M:%S'', ''%Y-%m-%d %H:%M:%S.%f'', ''%m/%d/%Y %H:%M'',
      ''%d/%m/%Y %H:%M:%S'', ''%d/%m/%Y %H:%M'', ''%Y/%m/%d %H:%M:%S'',
      ''%Y-%m-%dT%H:%M:%S'', ''%Y-%m-%dT%H:%M:%S.%f'', ''%Y-%m-%dT%H:%M:%SZ'']"

definition notna_sum :: "'a option list \<Rightarrow> nat" where
  \<comment> \<open>\<open>series.notna().sum()\<close>\<close>
  "notna_sum parsed = length (filter (\<lambda>x. x \<noteq> None) parsed)"

fun probar_formatos ::
  "(string \<Rightarrow> cell list \<Rightarrow> datetime option list option) \<Rightarrow> cell list \<Rightarrow> string list \<Rightarrow>
     datetime option list option \<times> string option \<Rightarrow>
     datetime option list option \<times> string option" where
  \<comment> \<open>the loop over the formats; the state is \<open>(timestamp_parsed, formato_exitoso)\<close>\<close>
  "probar_formatos strict col [] st = st"
| "probar_formatos strict col (formato # rest) (timestamp_parsed, formato_exitoso) =
     (case strict formato col of
        None \<Rightarrow> probar_formatos strict col rest (timestamp_parsed, formato_exitoso)
      | Some parsed \<Rightarrow>
          if notna_sum parsed > 0 then (Some parsed, Some formato)
          else probar_formatos strict col rest (Some parsed, formato_exitoso))"

definition parse_column ::
  "(string \<Rightarrow> cell list \<Rightarrow> datetime option list option) \<Rightarrow>
     (cell list \<Rightarrow> datetime option list) \<Rightarrow> string list \<Rightarrow> cell list \<Rightarrow>
     datetime option list" where
  \<comment> \<open>\<open>timestamp_parsed\<close> after the loop and the fallback\<close>
  "parse_column strict generic formatos col =
     (case fst (probar_formatos strict col formatos (None, None)) of
        None \<Rightarrow> generic col
      | Some parsed \<Rightarrow> if notna_sum parsed = 0 then generic col else parsed)"

definition column_named :: "frame \<Rightarrow> string \<Rightarrow> cell list" where
  \<comment> \<open>the values of \<open>df[c]\<close>\<close>
  "column_named df c = map (get df c) (rows df)"

definition assign_column :: "frame \<Rightarrow> string \<Rightarrow> dtype \<Rightarrow> cell list \<Rightarrow> frame" where
  \<comment> \<open>\<open>df[c] = values\<close>: in place under an existing label, a new last column otherwise\<close>
  "assign_column df c dt vals =
     (if c \<in> set (labels df)
      then let i = index_of c (labels df)
           in df\<lparr>columns := (columns df)[i := (c, dt)], rows := set_column i vals (rows df)\<rparr>
      else df\<lparr>columns := columns df @ [(c, dt)],
              rows := map (\<lambda>(k, row). row @ [cell_at vals k]) (enumerate 0 (rows df))\<rparr>)"

definition wf_frame :: "frame \<Rightarrow> bool" where
  \<comment> \<open>every row has one cell for each column\<close>
  "wf_frame df = list_all (\<lambda>row. length row = length (columns df)) (rows df)"

definition dt_field :: "(datetime \<Rightarrow> nat) \<Rightarrow> datetime option list \<Rightarrow> cell list" where
  \<comment> \<open>\<open>series.dt.year\<close> and the like: NaN where the timestamp is NaT\<close>
  "dt_field f parsed = map (\<lambda>x. case x of None \<Rightarrow> NA | Some t \<Rightarrow> I (int (f t))) parsed"

definition dt_field_dtype :: "datetime option list \<Rightarrow> dtype" where
  "dt_field_dtype parsed = (if list_all (\<lambda>x. x \<noteq> None) parsed then Int32 else Float64)"

definition dt_date :: "datetime option list \<Rightarrow> cell list" where
  \<comment> \<open>\<open>series.dt.date\<close>: the day, written as its timestamp at midnight\<close>
  "dt_date parsed =
     map (\<lambda>x. case x of None \<Rightarrow> NA
              | Some t \<Rightarrow> T (t\<lparr>hour := 0, minute := 0, second := 0\<rparr>)) parsed"

definition procesar_timestamps ::
  "(string \<Rightarrow> cell list \<Rightarrow> datetime option list option) \<Rightarrow>
     (cell list \<Rightarrow> datetime option list) \<Rightarrow> frame \<Rightarrow> string \<Rightarrow> frame" where
  "procesar_timestamps strict generic df columna =
     (if columna \<notin> set (labels df) then df
      else
        let timestamp_parsed = parse_column strict generic formatos_fecha (column_named df columna);
            stamps = map (case_option NA T) timestamp_parsed;
            dt = dt_field_dtype timestamp_parsed;
            df_work = assign_column df ''timestamp_parsed'' Datetime64 stamps;
            df_work = assign_column df_work ''photo_datetime'' Datetime64 stamps;
            df_work = assign_column df_work ''photo_date'' Object (dt_date timestamp_parsed);
            df_work = assign_column df_work ''year'' dt (dt_field year timestamp_parsed);
            df_work = assign_column df_work ''month'' dt (dt_field month timestamp_parsed);
            df_work = assign_column df_work ''day'' dt (dt_field day timestamp_parsed);
            df_work = assign_column df_work ''hour'' dt (dt_field hour timestamp_parsed)
        in assign_column df_work ''minute'' dt (dt_field minute timestamp_parsed))"

definition iso_only :: "string \<Rightarrow> cell list \<Rightarrow> datetime option list option" where
  \<comment> \<open>a toy strict parser for the examples: it reads \<open>S ''a''\<close> as 2025-01-15 under the
      first ISO format, nothing under the other formats, and fails under the second\<close>
  "iso_only f col =
     (if f = ''%Y-%m-%d %H:%M:%S.%f'' then None
      else if f = ''%Y-%m-%dT%H:%M:%S''
        then Some (map (\<lambda>c. if c = S ''a'' then Some (midnight 2025 1 15) else None) col)
      else Some (map (\<lambda>c. None) col))"

definition raw_example :: frame where
  "raw_example =
     \<lparr>columns = [(''timestamp'', Object), (''genus'', Object)],
      rows = [[S ''a'', S ''Puma''], [S ''b'', S ''Puma''], [NA, S ''Puma'']]\<rparr>"

definition formato_valido ::
  "(string \<Rightarrow> cell list \<Rightarrow> datetime option list option) \<Rightarrow> cell list \<Rightarrow> string \<Rightarrow> bool" where
  \<comment> \<open>the format parses the column without an exception and reads at least one entry\<close>
  "formato_valido strict col f =
     (case strict f col of None \<Rightarrow> False | Some parsed \<Rightarrow> list_ex (\<lambda>x. x \<noteq> None) parsed)"

section \<open>The jurisdiction assigner\<close>

text \<open>
  A deployment row carries the four columns the assigner reads; a missing coordinate
  (NaN) is \<open>None\<close>. Coordinates are decimal degrees. A polygon is its list of vertices;
  the test of a point against a polygon is the predicate \<open>within\<close> of the geometry
  library and is the parameter \<open>is_within\<close>. Reading the polygon file either finds
  no file, or raises, or yields the polygons, with or without the attribute
  \<open>NOMBRE_CAR\<close> (which may be null on a polygon).
\<close>

type_synonym point = "rat \<times> rat"

type_synonym polygon = "point list"

record deployment =
  deployment_id :: string
  project_id :: int
  longitude :: "rat option"
  latitude :: "rat option"

datatype shapefile =
  Not_found
| Read_error
| Without_nombre_car "polygon list"
| With_nombre_car "(string option \<times> polygon) list"

definition unique :: "'a list \<Rightarrow> 'a list" where
  \<comment> \<open>\<open>Series.unique()\<close>: the distinct values in order of first appearance\<close>
  "unique xs = rev (remdups (rev xs))"

definition crear_corporaciones_null :: "deployment list \<Rightarrow> (int \<times> string option) list" where
  "crear_corporaciones_null deployments_df =
     map (\<lambda>p. (p, None)) (unique (map project_id deployments_df))"

definition has_coordinates :: "deployment \<Rightarrow> bool" where
  "has_coordinates d = (longitude d \<noteq> None \<and> latitude d \<noteq> None)"

definition sjoin_within ::
  "(point \<Rightarrow> polygon \<Rightarrow> bool) \<Rightarrow> (string option \<times> polygon) list \<Rightarrow> deployment \<Rightarrow>
     (string \<times> int \<times> string option) list" where
  \<comment> \<open>the rows of the left join for one deployment: one row for each polygon its point
      is within, one row with a null name when there is none; a deployment without
      coordinates is not among the points\<close>
  "sjoin_within is_within gdf_cars d =
     (case (longitude d, latitude d) of
        (Some lon, Some lat) \<Rightarrow>
          (let hits = filter (\<lambda>(nombre, geom). is_within (lon, lat) geom) gdf_cars
           in if hits = [] then [(deployment_id d, project_id d, None)]
              else map (\<lambda>(nombre, geom). (deployment_id d, project_id d, nombre)) hits)
      | _ \<Rightarrow> [])"

definition deployment_corps ::
  "(point \<Rightarrow> polygon \<Rightarrow> bool) \<Rightarrow> (string option \<times> polygon) list \<Rightarrow> deployment list \<Rightarrow>
     (string \<times> int \<times> string option) list" where
  "deployment_corps is_within gdf_cars deployments_df =
     concat (map (sjoin_within is_within gdf_cars) (filter has_coordinates deployments_df))"

definition group_values :: "(string \<times> int \<times> string option) list \<Rightarrow> int \<Rightarrow> string option list" where
  \<comment> \<open>the column \<open>Corporacion\<close> of the group of one project\<close>
  "group_values corps p = map (\<lambda>(d, q, c). c) (filter (\<lambda>(d, q, c). q = p) corps)"

definition series_mode :: "string option list \<Rightarrow> string list" where
  \<comment> \<open>\<open>Series.mode()\<close>: the most frequent values, nulls dropped, in sorted order\<close>
  "series_mode x =
     (let vals = List.map_filter id x;
          top = fold (\<lambda>v m. max (count_list vals v) m) vals 0
      in sort (remdups (filter (\<lambda>v. count_list vals v = top) vals)))"

definition agg_mode :: "string option list \<Rightarrow> string option" where
  \<comment> \<open>\<open>x.mode()[0] if len(x.mode()) > 0 and pd.notna(x.mode()[0]) else None\<close>\<close>
  "agg_mode x = (case series_mode x of [] \<Rightarrow> None | v # _ \<Rightarrow> Some v)"

definition project_corps ::
  "(string \<times> int \<times> string option) list \<Rightarrow> (int \<times> string option) list" where
  \<comment> \<open>\<open>groupby('project_id')['Corporacion'].agg(...)\<close>: one row for each project, the
      projects in sorted order\<close>
  "project_corps corps =
     map (\<lambda>p. (p, agg_mode (group_values corps p)))
       (sort (remdups (map (\<lambda>(d, q, c). q) corps)))"

definition asignar_corporacion_geografica ::
  "(point \<Rightarrow> polygon \<Rightarrow> bool) \<Rightarrow> shapefile \<Rightarrow> deployment list \<Rightarrow> (int \<times> string option) list" where
  "asignar_corporacion_geografica is_within shp deployments_df =
     (case shp of
        Not_found \<Rightarrow> crear_corporaciones_null deployments_df
      | Read_error \<Rightarrow> crear_corporaciones_null deployments_df
      | Without_nombre_car _ \<Rightarrow> crear_corporaciones_null deployments_df
      | With_nombre_car gdf_cars \<Rightarrow>
          if filter has_coordinates deployments_df = []
          then crear_corporaciones_null deployments_df
          else project_corps (deployment_corps is_within gdf_cars deployments_df))"

definition corporacion_de :: "(int \<times> string option) list \<Rightarrow> int \<Rightarrow> string option" where
  \<comment> \<open>the \<open>Corporacion\<close> that the left merge on \<open>project_id\<close> gives the rows of a
      project: null for a project without a row in the table\<close>
  "corporacion_de project_corporaciones p =
     (case map_of project_corporaciones p of None \<Rightarrow> None | Some c \<Rightarrow> c)"

definition first_encountered_mode :: "string option list \<Rightarrow> string option" where
  \<comment> \<open>the tie rule in the words of the specification: among the most frequent non-null
      values, the one met first\<close>
  "first_encountered_mode x =
     (let vals = List.map_filter id x;
          top = fold (\<lambda>v m. max (count_list vals v) m) vals 0
      in find (\<lambda>v. count_list vals v = top) vals)"

definition in_box :: "point \<Rightarrow> polygon \<Rightarrow> bool" where
  \<comment> \<open>for the examples: strictly inside the box spanned by the first two vertices\<close>
  "in_box pt poly =
     (case poly of
        a # b # _ \<Rightarrow> fst a < fst pt \<and> fst pt < fst b \<and> snd a < snd pt \<and> snd pt < snd b
      | _ \<Rightarrow> False)"

definition cars_example :: "(string option \<times> polygon) list" where
  "cars_example = [(Some ''A'', [(0, 0), (10, 10)]), (Some ''B'', [(10, 0), (20, 10)])]"

definition dep :: "string \<Rightarrow> int \<Rightarrow> rat option \<Rightarrow> rat option \<Rightarrow> deployment" where
  "dep d p lon lat = \<lparr>deployment_id = d, project_id = p, longitude = lon, latitude = lat\<rparr>"

definition three_to_one :: "deployment list" where
  \<comment> \<open>project 7: three deployments in A, one in B, one without latitude\<close>
  "three_to_one =
     [dep ''d1'' 7 (Some 15) (Some 5), dep ''d2'' 7 (Some 1) (Some 1),
      dep ''d3'' 7 (Some 2) (Some 2), dep ''d4'' 7 (Some 3) (Some 3),
      dep ''d5'' 7 (Some 4) None, dep ''d6'' 8 None None]"

definition tie_example :: "deployment list" where
  \<comment> \<open>project 7: one deployment in B, then one in A\<close>
  "tie_example = [dep ''d1'' 7 (Some 15) (Some 5), dep ''d2'' 7 (Some 1) (Some 1)]"

definition top_count :: "string option list \<Rightarrow> nat" where
  \<comment> \<open>the number of occurrences of the most frequent non-null value\<close>
  "top_count x =
     (let vals = List.map_filter id x in fold (\<lambda>v m. max (count_list vals v) m) vals 0)"

section \<open>The orchestrator\<close>

text \<open>
  The run reads its inputs and calls the stages in order. What the run reads (the two
  reference tables and the images, \<open>None\<close> when the read fails), the parsers of
  pandas, the enrichment and the merge with the deployments are fields of the
  environment; the timestamp normalizer, the cleaning step, the two filters and the
  jurisdiction assigner are the functions above. The deployments table that reaches the
  assigner has gone through the merge on \<open>project_id\<close> and \<open>deployment_id\<close>;
  \<open>env_filas_deployments\<close> reads its rows. After the filters a step of the run can
  raise: the two merges of pandas, the computation of the deployment days with the
  handling of the date columns, and each validation are fields that answer \<open>None\<close>
  when they raise, and the reads of a column that is not there are written out. Each of
  the three exports catches its exceptions and answers a boolean. The result is how the
  run ends, a value returned or an exception, and the stages that ran, in order.
\<close>

datatype stage =
  Cargar_referencias | Cargar_imagenes | Procesar_timestamps | Limpiar_cv | Enriquecer
| Merge_deployments | Filtrar_subproject | Filtrar_fechas | Merge_projects
| Asignar_corporacion | Merge_corporacion | Preparacion_final | Generar_parquets | Validar
| Resumen

datatype outcome = Returned bool | Raised

record env =
  leer_referencias :: "(frame \<times> frame) option"
  leer_imagenes :: "frame option"
  env_strict :: "string \<Rightarrow> cell list \<Rightarrow> datetime option list option"
  env_generic :: "cell list \<Rightarrow> datetime option list"
  env_numeric :: "string \<Rightarrow> rat option"
  env_enriquecer :: "frame \<Rightarrow> frame"
  env_merge_deployments :: "frame \<Rightarrow> frame \<Rightarrow> frame"
  env_merge_projects :: "frame \<Rightarrow> frame \<Rightarrow> frame option"
  env_within :: "point \<Rightarrow> polygon \<Rightarrow> bool"
  env_shapefile :: shapefile
  env_filas_deployments :: "frame \<Rightarrow> deployment list"
  env_merge_corporacion :: "frame \<Rightarrow> (int \<times> string option) list \<Rightarrow> frame option"
  env_preparar :: "frame \<Rightarrow> frame option"
  env_exportar :: "frame \<Rightarrow> frame \<Rightarrow> frame \<Rightarrow> bool \<times> bool \<times> bool"
  env_validar :: "string \<Rightarrow> bool option"

definition generar_todas_las_tablas ::
  "env \<Rightarrow> frame \<Rightarrow> frame \<Rightarrow> frame \<Rightarrow> (string \<times> bool) list" where
  \<comment> \<open>the dictionary \<open>resultados\<close>: one entry for each of the three tables\<close>
  "generar_todas_las_tablas e observations_df deployments_df projects_df =
     (case env_exportar e observations_df deployments_df projects_df of
        (obs_ok, deps_ok, projs_ok) \<Rightarrow>
          [(''observations'', obs_ok), (''deployments'', deps_ok), (''projects'', projs_ok)])"

definition data_3_4 :: "env \<Rightarrow> frame \<Rightarrow> frame \<Rightarrow> frame" where
  \<comment> \<open>\<open>data\<close> after step 3.4, the subproject filter\<close>
  "data_3_4 e images deployments =
     (let images = procesar_timestamps (env_strict e) (env_generic e) images ''timestamp'';
          images = limpiar_registros_cv images;
          images = env_enriquecer e images;
          data = env_merge_deployments e images deployments
      in filtrar_por_subproject_valido data ''subproject_name'')"

definition data_3_5 :: "env \<Rightarrow> frame \<Rightarrow> frame \<Rightarrow> frame" where
  \<comment> \<open>\<open>data\<close> after step 3.5, the date-consistency filter\<close>
  "data_3_5 e images deployments =
     filtrar_fechas_inconsistentes (env_generic e) (env_numeric e)
       (data_3_4 e images deployments) ''photo_datetime'' ''subproject_name''"

definition merge_with_projects :: "env \<Rightarrow> frame \<Rightarrow> frame \<Rightarrow> frame option" where
  \<comment> \<open>\<open>None\<close>: the KeyError of \<open>projects_df[['project_id', 'project_name']]\<close>, or an
      exception of the merge\<close>
  "merge_with_projects e df projects_df =
     (if ''project_id'' \<notin> set (labels df) then Some df
      else if ''project_id'' \<notin> set (labels projects_df) then Some df
      else if ''project_name'' \<notin> set (labels projects_df) then None
      else env_merge_projects e df projects_df)"

definition resumen_columnas :: "string list" where
  \<comment> \<open>the columns that the final summary reads from \<open>data\<close>\<close>
  "resumen_columnas = [''sp_binomial'', ''project_id'', ''subproject_name'', ''deployment_name'']"

definition fases_1_3 :: "stage list" where
  "fases_1_3 =
     [Cargar_referencias, Cargar_imagenes, Procesar_timestamps, Limpiar_cv, Enriquecer,
      Merge_deployments, Filtrar_subproject]"

definition merge_corporacion ::
  "env \<Rightarrow> frame \<Rightarrow> (int \<times> string option) list \<Rightarrow> frame option" where
  \<comment> \<open>the left merge on \<open>project_id\<close> and the read of \<open>data['Corporacion']\<close> after
      it; \<open>None\<close>: one of the two raises\<close>
  "merge_corporacion e data project_corporaciones =
     (if ''project_id'' \<notin> set (labels data) then None
      else
        (case env_merge_corporacion e data project_corporaciones of
           None \<Rightarrow> None
         | Some data \<Rightarrow> if ''Corporacion'' \<notin> set (labels data) then None else Some data))"

definition preparacion_final :: "env \<Rightarrow> frame \<Rightarrow> frame option" where
  \<comment> \<open>steps 4.5.1 to 4.5.3 are \<open>env_preparar\<close>; step 4.5.4 adds an empty
      \<open>subproject_name\<close> when the column is not there\<close>
  "preparacion_final e data =
     (case env_preparar e data of
        None \<Rightarrow> None
      | Some data \<Rightarrow>
          Some (if ''subproject_name'' \<notin> set (labels data)
                then assign_column data ''subproject_name'' Object (map (\<lambda>row. S []) (rows data))
                else data))"

definition validaciones :: "env \<Rightarrow> bool" where
  \<comment> \<open>the three validations, in order, return (their answers are not used)\<close>
  "validaciones e =
     list_all (\<lambda>tabla. env_validar e tabla \<noteq> None)
       [''observations.parquet'', ''deployments.parquet'', ''projects.parquet'']"

definition tras_asignar ::
  "env \<Rightarrow> frame \<Rightarrow> frame \<Rightarrow> frame \<Rightarrow> (int \<times> string option) list \<Rightarrow> outcome \<times> stage list" where
  \<comment> \<open>the run from the merge of the jurisdictions on, given the table the assigner
      returned\<close>
  "tras_asignar e data deployments projects project_corporaciones =
     (case merge_corporacion e data project_corporaciones of
        None \<Rightarrow> (Raised, [Merge_corporacion])
      | Some data \<Rightarrow>
          (case preparacion_final e data of
             None \<Rightarrow> (Raised, [Merge_corporacion, Preparacion_final])
           | Some data \<Rightarrow>
               if generar_todas_las_tablas e data deployments projects = []
               then (Returned False, [Merge_corporacion, Preparacion_final, Generar_parquets])
               else if \<not> validaciones e
               then (Raised, [Merge_corporacion, Preparacion_final, Generar_parquets, Validar])
               else if list_all (\<lambda>c. c \<in> set (labels data)) resumen_columnas
               then (Returned True, [Merge_corporacion, Preparacion_final, Generar_parquets,
                       Validar, Resumen])
               else (Raised, [Merge_corporacion, Preparacion_final, Generar_parquets,
                       Validar, Resumen])))"

definition main :: "env \<Rightarrow> outcome \<times> stage list" where
  "main e =
     (case leer_referencias e of
        None \<Rightarrow> (Returned False, [Cargar_referencias])
      | Some (projects, deployments) \<Rightarrow>
          (case leer_imagenes e of
             None \<Rightarrow> (Returned False, [Cargar_referencias, Cargar_imagenes])
           | Some images \<Rightarrow>
               if empty images then (Returned False, [Cargar_referencias, Cargar_imagenes])
               else if empty (data_3_4 e images deployments) then (Returned False, fases_1_3)
               else if empty (data_3_5 e images deployments)
                 then (Returned False, fases_1_3 @ [Filtrar_fechas])
               else
                 (case merge_with_projects e (data_3_5 e images deployments) projects of
                    None \<Rightarrow> (Raised, fases_1_3 @ [Filtrar_fechas, Merge_projects])
                  | Some data \<Rightarrow>
                      (let project_corporaciones =
                             asignar_corporacion_geografica (env_within e) (env_shapefile e)
                               (env_filas_deployments e deployments);
                           (fin, fases) =
                             tras_asignar e data deployments projects project_corporaciones
                       in (fin, fases_1_3 @ [Filtrar_fechas, Merge_projects,
                                  Asignar_corporacion] @ fases)))))"

definition todas_las_fases :: "stage list" where
  "todas_las_fases =
     fases_1_3 @ [Filtrar_fechas, Merge_projects, Asignar_corporacion, Merge_corporacion,
                  Preparacion_final, Generar_parquets, Validar, Resumen]"

definition merge_izquierdo :: "frame \<Rightarrow> (int \<times> string option) list \<Rightarrow> frame option" where
  \<comment> \<open>for the examples, a left merge on \<open>project_id\<close>: each row gets the jurisdiction
      of its project in the new column \<open>Corporacion\<close>\<close>
  "merge_izquierdo data corps =
     (if ''project_id'' \<notin> set (labels data) \<or> ''Corporacion'' \<in> set (labels data) then None
      else Some (assign_column data ''Corporacion'' Object
             (map (\<lambda>row. case get data ''project_id'' row of
                           I p \<Rightarrow> (case corporacion_de corps p of None \<Rightarrow> NA | Some c \<Rightarrow> S c)
                         | _ \<Rightarrow> NA) (rows data))))"

definition merged_columns :: "(string \<times> dtype) list" where
  "merged_columns =
     [(''timestamp'', Object), (''photo_datetime'', Datetime64), (''subproject_name'', Object),
      (''project_id'', Int64), (''sp_binomial'', Object), (''deployment_name'', Object)]"

definition merged_2025 :: frame where
  "merged_2025 =
     \<lparr>columns = merged_columns,
      rows = [[S ''a'', T (midnight 2025 1 15), S ''2025_1'', I 7, S ''Puma concolor'',
               S ''d2'']]\<rparr>"

definition merged_2019 :: frame where
  "merged_2019 =
     \<lparr>columns = merged_columns,
      rows = [[S ''a'', T (midnight 2019 1 1), S ''2025_1'', I 7, S ''Puma concolor'',
               S ''d2'']]\<rparr>"

definition toy_env :: "frame \<Rightarrow> shapefile \<Rightarrow> env" where
  \<comment> \<open>an environment for the examples: the merge with the deployments yields the given
      frame, the jurisdictions are merged by \<open>merge_izquierdo\<close>, the other collaborators
      change nothing\<close>
  "toy_env merged shp =
     \<lparr>leer_referencias = Some (\<lparr>columns = [], rows = []\<rparr>, \<lparr>columns = [], rows = []\<rparr>),
      leer_imagenes = Some raw_example,
      env_strict = iso_only,
      env_generic = (\<lambda>col. map (\<lambda>c. None) col),
      env_numeric = (\<lambda>s. None),
      env_enriquecer = (\<lambda>df. df),
      env_merge_deployments = (\<lambda>images deployments. merged),
      env_merge_projects = (\<lambda>data projects. Some data),
      env_within = in_box,
      env_shapefile = shp,
      env_filas_deployments = (\<lambda>df. three_to_one),
      env_merge_corporacion = merge_izquierdo,
      env_preparar = (\<lambda>df. Some df),
      env_exportar = (\<lambda>obs deps projs. (True, True, True)),
      env_validar = (\<lambda>tabla. Some True)\<rparr>"


definition con_corporacion :: "cell \<Rightarrow> frame" where
  \<comment> \<open>\<open>merged_2025\<close> with the column \<open>Corporacion\<close> holding the given value\<close>
  "con_corporacion c =
     \<lparr>columns = merged_columns @ [(''Corporacion'', Object)],
      rows = [[S ''a'', T (midnight 2025 1 15), S ''2025_1'', I 7, S ''Puma concolor'',
               S ''d2'', c]]\<rparr>"

section \<open>Facts about the validator\<close>

lemmas char_tests = py_strip_def py_isspace_def str_isdigit_def py_isdigit_def is_decimal_def
  py_int_def decimal_value_def digit_val_def

lemma validar_string:
  "validar_subproject_name (S s) \<longleftrightarrow>
     (let t = py_strip s in
        length t = 6 \<and> t \<noteq> [] \<and> t \<noteq> ''nan'' \<and> t ! 4 = CHR ''_'' \<and>
        (\<exists>year_part seq_part y.
            py_split (CHR ''_'') t = [year_part, seq_part] \<and>
            length year_part = 4 \<and> str_isdigit year_part \<and>
            py_int year_part = Some y \<and> 2020 \<le> y \<and>
            length seq_part = 1 \<and> str_isdigit seq_part))"
  unfolding validar_subproject_name_def Let_def
  by (auto split: list.splits option.splits)

text \<open>
  What the validator does on a string: it answers true exactly when the string, stripped
  of the white space around it, has six characters, is neither empty nor \<open>nan\<close>, has
  the underscore at index 4, and splits at underscores into exactly two parts: four
  characters that \<open>int\<close> reads as a year of 2020 or later, and one character that
  \<open>str.isdigit\<close> accepts. A missing value is refused, and so are \<open>2025_1.2\<close> and
  \<open>2019_1\<close>; \<open>2025_1\<close> is accepted.
\<close>

lemma validar_isdigit_iff:
  "(validar_subproject_name (S s) \<longleftrightarrow>
     (let t = py_strip s in
        length t = 6 \<and> t \<noteq> [] \<and> t \<noteq> ''nan'' \<and> t ! 4 = CHR ''_'' \<and>
        (\<exists>year_part seq_part y.
            py_split (CHR ''_'') t = [year_part, seq_part] \<and>
            length year_part = 4 \<and> str_isdigit year_part \<and>
            py_int year_part = Some y \<and> 2020 \<le> y \<and>
            length seq_part = 1 \<and> str_isdigit seq_part)))
   \<and> \<not> validar_subproject_name NA
   \<and> \<not> validar_subproject_name (S ''2025_1.2'')
   \<and> \<not> validar_subproject_name (S ''2019_1'')
   \<and> validar_subproject_name (S ''2025_1'')"
proof (intro conjI)
  show "validar_subproject_name (S s) \<longleftrightarrow>
     (let t = py_strip s in
        length t = 6 \<and> t \<noteq> [] \<and> t \<noteq> ''nan'' \<and> t ! 4 = CHR ''_'' \<and>
        (\<exists>year_part seq_part y.
            py_split (CHR ''_'') t = [year_part, seq_part] \<and>
            length year_part = 4 \<and> str_isdigit year_part \<and>
            py_int year_part = Some y \<and> 2020 \<le> y \<and>
            length seq_part = 1 \<and> str_isdigit seq_part))"
    by (rule validar_string)
  show "\<not> validar_subproject_name NA"
    by (simp add: validar_subproject_name_def)
  show "\<not> validar_subproject_name (S ''2025_1.2'')"
    by (simp add: validar_subproject_name_def char_tests)
  show "\<not> validar_subproject_name (S ''2019_1'')"
    by (simp add: validar_subproject_name_def char_tests)
  show "validar_subproject_name (S ''2025_1'')"
    by (simp add: validar_subproject_name_def char_tests)
qed

text \<open>
  C2. The claim asks for a single digit after the underscore, and the docstring of the
  validator for a digit from 1 to 9. The code tests that character with
  \<open>num_str.isdigit()\<close> only, which also holds for the superscript two (code point
  178): the string \<open>2025_\<close> followed by that character has six characters, the
  underscore at index 4 and the year 2025, and is accepted, although its last character
  is not a decimal digit. So the validator does not answer true only on the strings the
  claim describes.
\<close>

theorem validar_accepts_superscript_two:
  "validar_subproject_name (S (''2025_'' @ [CHR 0xB2])) \<and> \<not> is_decimal (CHR 0xB2)"
  by (simp add: validar_subproject_name_def char_tests)

theorem validar_accepts_superscript_two_witness:
  "validar_subproject_name (S (''2025_'' @ [CHR 0xB2])) \<and> \<not> is_decimal (CHR 0xB2) \<and>
   length (''2025_'' @ [CHR 0xB2]) = 6 \<and> (of_char (CHR 0xB2) :: nat) = 178"
  using validar_accepts_superscript_two by simp

lemma split_six:
  "py_split (CHR ''_'') [a, b, c, d, CHR ''_'', n] = [y, q] \<longleftrightarrow>
     a \<noteq> CHR ''_'' \<and> b \<noteq> CHR ''_'' \<and> c \<noteq> CHR ''_'' \<and> d \<noteq> CHR ''_'' \<and> n \<noteq> CHR ''_'' \<and>
     y = [a, b, c, d] \<and> q = [n]"
  by auto

lemma length_six:
  "length t = 6 \<longleftrightarrow> (\<exists>a b c d e n. t = [a, b, c, d, e, n])"
  by (auto simp: length_Suc_conv eval_nat_numeral)

lemma digit_not_underscore: "py_isdigit c \<Longrightarrow> c \<noteq> CHR ''_''"
  by (auto simp: py_isdigit_def is_decimal_def)

text \<open>
  The accepted strings are those of the shape \<open>YYYY_N\<close>: four decimal digits with value
  2020 or more, the underscore, and one character that \<open>str.isdigit\<close> accepts.
\<close>

lemma validar_subproject_name_grammar:
  "validar_subproject_name (S s) \<longleftrightarrow>
     (\<exists>a b c d n. py_strip s = [a, b, c, d, CHR ''_'', n] \<and>
        is_decimal a \<and> is_decimal b \<and> is_decimal c \<and> is_decimal d \<and> py_isdigit n \<and>
        2020 \<le> 1000 * digit_val a + 100 * digit_val b + 10 * digit_val c + digit_val d)"
  (is "?L \<longleftrightarrow> ?R")
proof
  assume ?L
  then obtain yp sp y where t: "length (py_strip s) = 6" "py_strip s ! 4 = CHR ''_''"
    "py_split (CHR ''_'') (py_strip s) = [yp, sp]" "length yp = 4" "str_isdigit yp"
    "py_int yp = Some y" "2020 \<le> y" "length sp = 1" "str_isdigit sp"
    using validar_string[of s] by (auto simp: Let_def)
  from t(1) obtain a b c d e n where e: "py_strip s = [a, b, c, d, e, n]"
    by (auto simp: length_six)
  with t(2) have e': "e = CHR ''_''" by simp
  have yp: "yp = [a, b, c, d]" "sp = [n]"
    using t(3)[unfolded e e'] by (simp_all only: split_six)
  from t(6,7) yp have "is_decimal a \<and> is_decimal b \<and> is_decimal c \<and> is_decimal d \<and>
     2020 \<le> 1000 * digit_val a + 100 * digit_val b + 10 * digit_val c + digit_val d"
    by (auto simp: py_int_def decimal_value_def split: if_splits)
  moreover from t(9) yp have "py_isdigit n" by (simp add: str_isdigit_def)
  ultimately show ?R using e e' by blast
next
  assume ?R
  then obtain a b c d n where r: "py_strip s = [a, b, c, d, CHR ''_'', n]"
    "is_decimal a" "is_decimal b" "is_decimal c" "is_decimal d" "py_isdigit n"
    "2020 \<le> 1000 * digit_val a + 100 * digit_val b + 10 * digit_val c + digit_val d"
    by blast
  have ne: "a \<noteq> CHR ''_''" "b \<noteq> CHR ''_''" "c \<noteq> CHR ''_''" "d \<noteq> CHR ''_''" "n \<noteq> CHR ''_''"
    using r(2-6) digit_not_underscore by (auto simp: py_isdigit_def)
  show ?L
    unfolding validar_subproject_name_def Let_def
    using r ne by (simp add: str_isdigit_def py_isdigit_def py_int_def decimal_value_def)
qed

text \<open>
  C5. The docstring of the validator promises a sequence digit from 1 to 9, but the
  code only asks \<open>num_str.isdigit()\<close>: the code \<open>2025_0\<close> is accepted.
\<close>

theorem validar_accepts_sequence_zero:
  "validar_subproject_name (S ''2025_0'')"
  by (simp add: validar_subproject_name_def char_tests)

theorem validar_accepts_sequence_zero_witness:
  "validar_subproject_name (S ''2025_0'') \<and> ''2025_0'' ! 5 = CHR ''0''"
  using validar_accepts_sequence_zero by simp

section \<open>Facts about dataframes\<close>

lemma list_ex_duplicated_from:
  "list_ex id (duplicated_from seen ls) \<longleftrightarrow> \<not> (distinct ls \<and> set ls \<inter> set seen = {})"
  by (induction ls arbitrary: seen) auto

lemma any_duplicated: "list_ex id (duplicated ls) \<longleftrightarrow> \<not> distinct ls"
  by (simp add: duplicated_def list_ex_duplicated_from)

lemma select_not_Nil [simp]: "select_not [] xs = []" "select_not m [] = []"
  by (simp_all add: select_not_def)

lemma select_not_Cons [simp]:
  "select_not (m # ms) (x # xs) = (if m then select_not ms xs else x # select_not ms xs)"
  by (simp add: select_not_def)

lemma set_select_from:
  "set (map fst (select_not (duplicated_from seen (map fst cols)) cols)) =
     set (map fst cols) - set seen"
  by (induction cols arbitrary: seen) auto

lemma distinct_select_from:
  "distinct (map fst (select_not (duplicated_from seen (map fst cols)) cols))"
proof (induction cols arbitrary: seen)
  case Nil
  show ?case by simp
next
  case (Cons p cols)
  have "set (map fst (select_not (duplicated_from (fst p # seen) (map fst cols)) cols)) =
      set (map fst cols) - set (fst p # seen)"
    by (rule set_select_from)
  then have "fst p \<notin>
      set (map fst (select_not (duplicated_from (fst p # seen) (map fst cols)) cols))"
    by auto
  then show ?case using Cons by simp
qed

lemma labels_drop_duplicated:
  "distinct (labels (drop_duplicated_columns df))"
  "set (labels (drop_duplicated_columns df)) = set (labels df)"
  using set_select_from[of "[]" "columns df"] distinct_select_from[of "[]" "columns df"]
  by (simp_all add: drop_duplicated_columns_def labels_def duplicated_def Let_def)

lemma map_fst_update_index:
  "c \<in> set (map fst cols) \<Longrightarrow>
     map fst (cols[index_of c (map fst cols) := (c, d)]) = map fst cols"
  by (induction cols) auto

lemma map_of_update_index:
  "c \<in> set (map fst cols) \<Longrightarrow> map_of (cols[index_of c (map fst cols) := (c, d)]) c = Some d"
  by (induction cols) auto

lemma labels_assign_datetime:
  "c \<in> set (labels df) \<Longrightarrow> labels (assign_datetime td df c) = labels df"
  by (simp add: assign_datetime_def labels_def Let_def map_fst_update_index)

lemma dtype_assign_datetime:
  "c \<in> set (labels df) \<Longrightarrow> dtype_of (assign_datetime td df c) c = Some Datetime64"
  by (simp add: assign_datetime_def labels_def dtype_of_def Let_def map_of_update_index)

lemma fechas_df_props:
  assumes "c \<in> set (labels df)"
  shows "distinct (labels (fechas_df td df c))"
    and "set (labels (fechas_df td df c)) = set (labels df)"
    and "dtype_of (fechas_df td df c) c = Some Datetime64"
  using assms
  by (auto simp: fechas_df_def Let_def labels_drop_duplicated labels_assign_datetime
      dtype_assign_datetime any_duplicated)

lemma fechas_df_id:
  "distinct (labels df) \<Longrightarrow> dtype_of df c = Some Datetime64 \<Longrightarrow> fechas_df td df c = df"
  by (simp add: fechas_df_def any_duplicated)

lemma labels_rows_update [simp]: "labels (df\<lparr>rows := rs\<rparr>) = labels df"
  by (simp add: labels_def)

lemma dtype_of_rows_update [simp]: "dtype_of (df\<lparr>rows := rs\<rparr>) c = dtype_of df c"
  by (simp add: dtype_of_def)

lemma get_rows_update [simp]: "get (df\<lparr>rows := rs\<rparr>) c = get df c"
  by (simp add: get_def fun_eq_iff)

lemma year_photo_rows_update [simp]: "year_photo (df\<lparr>rows := rs\<rparr>) c = year_photo df c"
  by (simp add: year_photo_def fun_eq_iff)

lemma year_subproject_rows_update [simp]:
  "year_subproject other (df\<lparr>rows := rs\<rparr>) c = year_subproject other df c"
  by (simp add: year_subproject_def fun_eq_iff)

lemmas frame_eval = labels_def get_def cell_at_def dtype_of_def duplicated_def
  drop_duplicated_columns_def fechas_df_def year_photo_def year_subproject_def
  to_numeric_def is_decimal_def decimal_value_def digit_val_def midnight_def

section \<open>Facts about the date-consistency filter\<close>

lemma mask_valido_iff:
  "mask_valido ys yp \<longleftrightarrow> (\<exists>cy ey. yp = Some cy \<and> ys = Some ey \<and> ey - of_nat cy \<le> 1)"
  by (auto simp: mask_valido_def year_diff_def split: option.splits)

lemma filtrar_fechas_general:
  assumes pres: "fecha \<in> set (labels df)" "sub \<in> set (labels df)"
  shows "let df2 = fechas_df to_datetime df fecha;
          out = filtrar_fechas_inconsistentes to_datetime other df fecha sub;
          consistent = (\<lambda>row. \<exists>cy ey. year_photo df2 fecha row = Some cy \<and>
                            year_subproject other df2 sub row = Some ey \<and> ey - of_nat cy \<le> 1)
      in columns out = columns df2 \<and> rows out = filter consistent (rows df2) \<and>
         (\<forall>row \<in> set (rows out). consistent row) \<and>
         (\<forall>row. isna (get df2 fecha row) \<longrightarrow> row \<notin> set (rows out)) \<and>
         (\<forall>row. year_subproject other df2 sub row = None \<longrightarrow> row \<notin> set (rows out)) \<and>
         (\<forall>row \<in> set (rows df2). \<forall>cy ey.
             year_photo df2 fecha row = Some cy \<and> year_subproject other df2 sub row = Some ey \<and>
             ey - 1 \<le> of_nat cy \<longrightarrow> row \<in> set (rows out)) \<and>
         (distinct (labels df) \<and> dtype_of df fecha = Some Datetime64 \<longrightarrow> df2 = df)"
proof -
  define df2 where "df2 = fechas_df to_datetime df fecha"
  define out where "out = filtrar_fechas_inconsistentes to_datetime other df fecha sub"
  define consistent where "consistent = (\<lambda>row. \<exists>cy ey. year_photo df2 fecha row = Some cy \<and>
      year_subproject other df2 sub row = Some ey \<and> ey - of_nat cy \<le> 1)"
  have out: "out = df2\<lparr>rows := filter consistent (rows df2)\<rparr>"
    using pres
    by (simp add: out_def df2_def consistent_def filtrar_fechas_inconsistentes_def
        mask_valido_iff Let_def)
  have c1: "columns out = columns df2" and c2: "rows out = filter consistent (rows df2)"
    by (simp_all add: out)
  have c3: "\<forall>row \<in> set (rows out). consistent row"
    by (simp add: c2)
  have c4: "\<forall>row. isna (get df2 fecha row) \<longrightarrow> row \<notin> set (rows out)"
  proof (intro allI impI)
    fix row assume "isna (get df2 fecha row)"
    then have "year_photo df2 fecha row = None"
      by (cases "get df2 fecha row") (simp_all add: year_photo_def)
    then show "row \<notin> set (rows out)" by (simp add: c2 consistent_def)
  qed
  have c5: "\<forall>row. year_subproject other df2 sub row = None \<longrightarrow> row \<notin> set (rows out)"
    by (simp add: c2 consistent_def)
  have c6: "\<forall>row \<in> set (rows df2). \<forall>cy ey.
             year_photo df2 fecha row = Some cy \<and> year_subproject other df2 sub row = Some ey \<and>
             ey - 1 \<le> of_nat cy \<longrightarrow> row \<in> set (rows out)"
  proof (intro ballI allI impI, elim conjE)
    fix row cy ey
    assume r: "row \<in> set (rows df2)" "year_photo df2 fecha row = Some cy"
      "year_subproject other df2 sub row = Some ey" "ey - 1 \<le> of_nat cy"
    from r(4) have "ey - of_nat cy \<le> 1" by simp
    with r(1-3) show "row \<in> set (rows out)" by (auto simp: c2 consistent_def)
  qed
  have c7: "distinct (labels df) \<and> dtype_of df fecha = Some Datetime64 \<longrightarrow> df2 = df"
    by (simp add: df2_def fechas_df_id)
  show ?thesis
    unfolding Let_def
    using c1 c2 c3 c4 c5 c6 c7
    unfolding df2_def out_def consistent_def
    by blast
qed

lemma filtrar_event_2025:
  "filtrar_fechas_inconsistentes to_datetime other event_2025 ''photo_datetime''
     ''subproject_name'' =
   \<lparr>columns = [(''photo_datetime'', Datetime64), (''subproject_name'', Object)],
    rows = [[T (midnight 2024 6 1), S ''2025_1'']]\<rparr>"
  by (simp add: filtrar_fechas_inconsistentes_def event_2025_def frame_eval mask_valido_def
      year_diff_def)

text \<open>
  C1. When both columns are present, the filter returns the frame it works on (the
  input once repeated labels are dropped and the date column is datetime; the input
  itself when its labels are distinct and the date column is datetime already) with
  exactly the rows whose capture year and event year are both defined and satisfy
  event year minus capture year at most 1. So every retained row satisfies the bound,
  a row with a missing date or with an event year that does not parse is dropped, and a
  row whose capture year is at least the event year minus 1 is retained however far in
  the future it lies. For event \<open>2025_1\<close> the row dated 2019-01-01 is dropped and the
  row dated 2024-06-01 is retained.
\<close>

theorem filtrar_fechas_inconsistentes_retains:
  "(fecha \<in> set (labels df) \<and> sub \<in> set (labels df) \<longrightarrow>
     (let df2 = fechas_df to_datetime df fecha;
          out = filtrar_fechas_inconsistentes to_datetime other df fecha sub;
          consistent = (\<lambda>row. \<exists>cy ey. year_photo df2 fecha row = Some cy \<and>
                            year_subproject other df2 sub row = Some ey \<and> ey - of_nat cy \<le> 1)
      in columns out = columns df2 \<and> rows out = filter consistent (rows df2) \<and>
         (\<forall>row \<in> set (rows out). consistent row) \<and>
         (\<forall>row. isna (get df2 fecha row) \<longrightarrow> row \<notin> set (rows out)) \<and>
         (\<forall>row. year_subproject other df2 sub row = None \<longrightarrow> row \<notin> set (rows out)) \<and>
         (\<forall>row \<in> set (rows df2). \<forall>cy ey.
             year_photo df2 fecha row = Some cy \<and> year_subproject other df2 sub row = Some ey \<and>
             ey - 1 \<le> of_nat cy \<longrightarrow> row \<in> set (rows out)) \<and>
         (distinct (labels df) \<and> dtype_of df fecha = Some Datetime64 \<longrightarrow> df2 = df)))
   \<and> filtrar_fechas_inconsistentes to_datetime other event_2025 ''photo_datetime''
        ''subproject_name'' =
      \<lparr>columns = [(''photo_datetime'', Datetime64), (''subproject_name'', Object)],
       rows = [[T (midnight 2024 6 1), S ''2025_1'']]\<rparr>"
  using filtrar_fechas_general [of fecha df sub to_datetime other] filtrar_event_2025
  by blast

theorem filtrar_fechas_inconsistentes_retains_witness:
  "''photo_datetime'' \<in> set (labels merged_example) \<and>
   ''subproject_name'' \<in> set (labels merged_example) \<and>
   columns (filtrar_fechas_inconsistentes (\<lambda>c. []) (\<lambda>s. None) merged_example
      ''photo_datetime'' ''subproject_name'') =
     [(''photo_datetime'', Datetime64), (''subproject_name'', Object)] \<and>
   rows (filtrar_fechas_inconsistentes (\<lambda>c. []) (\<lambda>s. None) merged_example
      ''photo_datetime'' ''subproject_name'') =
     [[T (midnight 2024 6 1), S ''2025_1''], [T (midnight 2026 3 9), S ''2025_1'']]"
  using filtrar_fechas_inconsistentes_retains
    [of "''photo_datetime''" merged_example "''subproject_name''" "\<lambda>c. []" "\<lambda>s. None"]
  by (simp add: merged_example_def frame_eval Let_def)

text \<open>
  C7. The filter is idempotent: applied to its own output it returns that output, for
  every frame (a frame without one of the two columns is returned as it is).
\<close>

theorem filtrar_fechas_inconsistentes_idempotent:
  "filtrar_fechas_inconsistentes td other
     (filtrar_fechas_inconsistentes td other df fecha sub) fecha sub =
   filtrar_fechas_inconsistentes td other df fecha sub"
proof (cases "fecha \<in> set (labels df) \<and> sub \<in> set (labels df)")
  case False
  then show ?thesis by (auto simp: filtrar_fechas_inconsistentes_def)
next
  case True
  define df2 where "df2 = fechas_df td df fecha"
  define M where "M = (\<lambda>row. mask_valido (year_subproject other df2 sub row)
                                       (year_photo df2 fecha row))"
  define out where "out = df2\<lparr>rows := filter M (rows df2)\<rparr>"
  have f: "filtrar_fechas_inconsistentes td other df fecha sub = out"
    using True by (simp add: filtrar_fechas_inconsistentes_def Let_def out_def M_def df2_def)
  have lab: "labels out = labels df2" by (simp add: out_def)
  have props: "distinct (labels df2)" "set (labels df2) = set (labels df)"
    "dtype_of df2 fecha = Some Datetime64"
    using True fechas_df_props[of fecha df td] by (simp_all add: df2_def)
  have pres: "fecha \<in> set (labels out)" "sub \<in> set (labels out)"
    using True props(2) lab by simp_all
  have same: "fechas_df td out fecha = out"
    using props by (intro fechas_df_id) (simp_all add: lab out_def)
  have M': "(\<lambda>row. mask_valido (year_subproject other out sub row)
                               (year_photo out fecha row)) = M"
    by (simp add: out_def M_def)
  have "filtrar_fechas_inconsistentes td other out fecha sub =
      out\<lparr>rows := filter (\<lambda>row. mask_valido (year_subproject other out sub row)
                                             (year_photo out fecha row)) (rows out)\<rparr>"
    using pres by (simp add: filtrar_fechas_inconsistentes_def Let_def same)
  also have "\<dots> = out\<lparr>rows := filter M (rows out)\<rparr>" by (simp only: M')
  also have "\<dots> = out" by (simp add: out_def)
  finally show ?thesis by (simp add: f)
qed

theorem filtrar_fechas_inconsistentes_idempotent_witness:
  "filtrar_fechas_inconsistentes (\<lambda>c. []) (\<lambda>s. None)
     \<lparr>columns = [(''photo_datetime'', Datetime64), (''subproject_name'', Object)],
      rows = [[T (midnight 2024 6 1), S ''2025_1''], [T (midnight 2026 3 9), S ''2025_1'']]\<rparr>
     ''photo_datetime'' ''subproject_name'' =
   filtrar_fechas_inconsistentes (\<lambda>c. []) (\<lambda>s. None) merged_example
     ''photo_datetime'' ''subproject_name''"
proof -
  have out: "filtrar_fechas_inconsistentes (\<lambda>c. []) (\<lambda>s. None) merged_example
      ''photo_datetime'' ''subproject_name'' =
    \<lparr>columns = [(''photo_datetime'', Datetime64), (''subproject_name'', Object)],
     rows = [[T (midnight 2024 6 1), S ''2025_1''], [T (midnight 2026 3 9), S ''2025_1'']]\<rparr>"
    by (simp add: filtrar_fechas_inconsistentes_def merged_example_def frame_eval
        mask_valido_def year_diff_def)
  show ?thesis
    using filtrar_fechas_inconsistentes_idempotent
      [of "\<lambda>c. []" "\<lambda>s. None" merged_example "''photo_datetime''" "''subproject_name''"]
    by (simp only: out)
qed

section \<open>Facts about the cleaning of computer-vision records\<close>

lemma limpiar_rows:
  "''genus'' \<in> set (labels df) \<Longrightarrow> ''species'' \<in> set (labels df) \<Longrightarrow>
   limpiar_registros_cv df =
     df\<lparr>rows := filter (\<lambda>row. \<not> isna (get df ''genus'' row) \<and> \<not> isna (get df ''species'' row) \<and>
                            get df ''genus'' row \<notin> set cv_invalid \<and>
                            get df ''species'' row \<notin> set cv_invalid) (rows df)\<rparr>"
  by (simp add: limpiar_registros_cv_def Let_def conj_ac cong: conj_cong)

text \<open>
  C9. The cleaning step returns a frame without the genus or the species column as it
  is. Otherwise (for a frame whose labels are distinct) it keeps the header and returns
  a subsequence of the input rows, each row unchanged: the rows whose genus and species
  are both present and both different from \<open>No CV Result\<close> and \<open>Unknown\<close>. The
  function has no failing branch.
\<close>

theorem limpiar_registros_cv_only_drops:
  "(''genus'' \<notin> set (labels df) \<or> ''species'' \<notin> set (labels df) \<longrightarrow>
      limpiar_registros_cv df = df) \<and>
   (distinct (labels df) \<longrightarrow>
      columns (limpiar_registros_cv df) = columns df \<and>
      subseq (rows (limpiar_registros_cv df)) (rows df)) \<and>
   (distinct (labels df) \<and> ''genus'' \<in> set (labels df) \<and> ''species'' \<in> set (labels df) \<longrightarrow>
      rows (limpiar_registros_cv df) =
        filter (\<lambda>row. get df ''genus'' row \<notin> {NA, S ''No CV Result'', S ''Unknown''} \<and>
                       get df ''species'' row \<notin> {NA, S ''No CV Result'', S ''Unknown''})
          (rows df) \<and>
      (\<forall>row \<in> set (rows (limpiar_registros_cv df)).
          get df ''genus'' row \<noteq> NA \<and> get df ''species'' row \<noteq> NA \<and>
          get df ''genus'' row \<noteq> S ''No CV Result'' \<and> get df ''genus'' row \<noteq> S ''Unknown'' \<and>
          get df ''species'' row \<noteq> S ''No CV Result'' \<and> get df ''species'' row \<noteq> S ''Unknown''))"
proof (cases "''genus'' \<in> set (labels df) \<and> ''species'' \<in> set (labels df)")
  case False
  then have "limpiar_registros_cv df = df"
    by (auto simp: limpiar_registros_cv_def)
  with False show ?thesis by auto
next
  case True
  then have eq: "limpiar_registros_cv df =
     df\<lparr>rows := filter (\<lambda>row. \<not> isna (get df ''genus'' row) \<and> \<not> isna (get df ''species'' row) \<and>
                            get df ''genus'' row \<notin> set cv_invalid \<and>
                            get df ''species'' row \<notin> set cv_invalid) (rows df)\<rparr>"
    by (simp add: limpiar_rows)
  have na: "isna c \<longleftrightarrow> c = NA" for c by (cases c) simp_all
  have "columns (limpiar_registros_cv df) = columns df" by (simp add: eq)
  moreover have "subseq (rows (limpiar_registros_cv df)) (rows df)" by (simp add: eq)
  moreover have "rows (limpiar_registros_cv df) =
        filter (\<lambda>row. get df ''genus'' row \<notin> {NA, S ''No CV Result'', S ''Unknown''} \<and>
                       get df ''species'' row \<notin> {NA, S ''No CV Result'', S ''Unknown''})
          (rows df)"
    by (auto simp: eq cv_invalid_def na intro!: filter_cong)
  moreover have "\<forall>row \<in> set (rows (limpiar_registros_cv df)).
          get df ''genus'' row \<noteq> NA \<and> get df ''species'' row \<noteq> NA \<and>
          get df ''genus'' row \<noteq> S ''No CV Result'' \<and> get df ''genus'' row \<noteq> S ''Unknown'' \<and>
          get df ''species'' row \<noteq> S ''No CV Result'' \<and> get df ''species'' row \<noteq> S ''Unknown''"
    by (auto simp: eq cv_invalid_def)
  ultimately show ?thesis using True by blast
qed

theorem limpiar_registros_cv_only_drops_witness:
  "distinct (labels taxa_example) \<and> ''genus'' \<in> set (labels taxa_example) \<and>
   ''species'' \<in> set (labels taxa_example) \<and>
   rows (limpiar_registros_cv taxa_example) = [[S ''Puma'', S ''concolor'']]"
  using limpiar_registros_cv_only_drops [of taxa_example]
  by (simp add: taxa_example_def labels_def get_def cell_at_def)

section \<open>Facts about the dtype optimization\<close>


lemma astype_int32_id:
  "- 2147483648 \<le> v \<Longrightarrow> v \<le> 2147483647 \<Longrightarrow> astype_int32 (I v) = I v"
  by (simp add: sint_sbintrunc' signed_take_bit_int_eq_self)

lemma fold_min_le: "v \<in> set (x # xs) \<Longrightarrow> fold min xs x \<le> (v::int)"
proof (induction xs arbitrary: x v)
  case Nil
  then show ?case by simp
next
  case (Cons y ys)
  have a: "fold min ys (min y x) \<le> min y x" using Cons.IH[of "min y x" "min y x"] by simp
  show ?case
  proof (cases "v = x \<or> v = y")
    case True
    with a show ?thesis by auto
  next
    case False
    with Cons.prems have "v \<in> set (min y x # ys)" by simp
    from Cons.IH[OF this] show ?thesis by simp
  qed
qed

lemma fold_max_ge: "v \<in> set (x # xs) \<Longrightarrow> (v::int) \<le> fold max xs x"
proof (induction xs arbitrary: x v)
  case Nil
  then show ?case by simp
next
  case (Cons y ys)
  have a: "max y x \<le> fold max ys (max y x)" using Cons.IH[of "max y x" "max y x"] by simp
  show ?case
  proof (cases "v = x \<or> v = y")
    case True
    with a show ?thesis by auto
  next
    case False
    with Cons.prems have "v \<in> set (max y x # ys)" by simp
    from Cons.IH[OF this] show ?thesis by simp
  qed
qed

lemma set_int_values: "v \<in> set (int_values cells) \<longleftrightarrow> I v \<in> set cells"
  by (induction cells rule: int_values.induct) auto

lemma fits_int32_iff:
  "fits_int32 cells \<longleftrightarrow>
     (\<forall>v. I v \<in> set cells \<longrightarrow> - 2147483648 \<le> v \<and> v \<le> 2147483647)"
  using set_int_values[of _ cells] by (auto simp: fits_int32_def list_all_iff)

lemma col_min_le:
  assumes "col_min cells = Some lo" "I v \<in> set cells"
  shows "lo \<le> v"
proof -
  from assms(2) have "v \<in> set (int_values cells)" by (simp add: set_int_values)
  moreover from assms(1) obtain x xs where "int_values cells = x # xs" "lo = fold min xs x"
    by (auto simp: col_min_def split: list.splits)
  ultimately show ?thesis using fold_min_le[of v x xs] by simp
qed

lemma col_max_ge:
  assumes "col_max cells = Some hi" "I v \<in> set cells"
  shows "v \<le> hi"
proof -
  from assms(2) have "v \<in> set (int_values cells)" by (simp add: set_int_values)
  moreover from assms(1) obtain x xs where "int_values cells = x # xs" "hi = fold max xs x"
    by (auto simp: col_max_def split: list.splits)
  ultimately show ?thesis using fold_max_ge[of v x xs] by simp
qed


lemma narrow_cell:
  assumes "fits_int32 (column df i)" "row \<in> set (rows df)"
  shows "row[i := astype_int32 (cell_at row i)] = row"
proof (cases "i < length row")
  case False
  then show ?thesis by (simp add: list_update_beyond)
next
  case True
  have mem: "cell_at row i \<in> set (column df i)"
    using assms(2) by (auto simp: column_def)
  have "astype_int32 (cell_at row i) = cell_at row i"
  proof (cases "cell_at row i")
    case (I v)
    with mem assms(1) have "- 2147483648 \<le> v \<and> v \<le> 2147483647"
      by (auto simp: fits_int32_iff)
    with I show ?thesis using astype_int32_id[of v] by simp
  qed simp_all
  with True show ?thesis by (simp add: cell_at_def)
qed

lemma map_fst_update_same:
  "map fst (cols[i := (fst (cols ! i), d)]) = map fst cols"
  by (cases "i < length cols") (simp_all add: map_update list_update_same_conv list_update_beyond)

lemma narrow_step_cases:
  "narrow_step i df = df \<or>
   (fits_int32 (column df i) \<and>
    narrow_step i df = df\<lparr>columns := (columns df)[i := (fst (columns df ! i), Int32)],
          rows := map (\<lambda>row. row[i := astype_int32 (cell_at row i)]) (rows df)\<rparr>)"
proof (cases "\<exists>lo hi. col_min (column df i) = Some lo \<and> col_max (column df i) = Some hi \<and>
    lo \<ge> - 2147483648 \<and> hi \<le> 2147483647")
  case False
  then have "narrow_step i df = df"
    by (auto simp: narrow_step_def split: option.splits)
  then show ?thesis ..
next
  case True
  then obtain lo hi where b: "col_min (column df i) = Some lo" "col_max (column df i) = Some hi"
    "lo \<ge> - 2147483648" "hi \<le> 2147483647" by blast
  have "fits_int32 (column df i)"
    unfolding fits_int32_iff using col_min_le[OF b(1)] col_max_ge[OF b(2)] b(3,4) by fastforce
  moreover have "narrow_step i df = df\<lparr>columns := (columns df)[i := (fst (columns df ! i), Int32)],
          rows := map (\<lambda>row. row[i := astype_int32 (cell_at row i)]) (rows df)\<rparr>"
    using b by (simp add: narrow_step_def)
  ultimately show ?thesis by blast
qed

lemma narrow_step_rows: "rows (narrow_step i df) = rows df"
  using narrow_step_cases[of i df] narrow_cell[of df i]
  by (auto simp: map_idI)

lemma narrow_step_labels: "labels (narrow_step i df) = labels df"
  using narrow_step_cases[of i df]
  by (auto simp: labels_def map_fst_update_same)

lemma narrow_step_dtype:
  "snd (columns (narrow_step i df) ! j) = snd (columns df ! j) \<or>
   (j = i \<and> i < length (columns df) \<and> snd (columns (narrow_step i df) ! j) = Int32 \<and>
    fits_int32 (column df i))"
proof -
  consider "narrow_step i df = df" | "fits_int32 (column df i)"
    "narrow_step i df = df\<lparr>columns := (columns df)[i := (fst (columns df ! i), Int32)],
          rows := map (\<lambda>row. row[i := astype_int32 (cell_at row i)]) (rows df)\<rparr>"
    using narrow_step_cases[of i df] by blast
  then show ?thesis
  proof cases
    case 1
    then show ?thesis by simp
  next
    case 2
    show ?thesis
    proof (cases "j = i \<and> i < length (columns df)")
      case True
      with 2 show ?thesis by simp
    next
      case False
      then have "(columns df)[i := (fst (columns df ! i), Int32)] ! j = columns df ! j"
        by (cases "j = i") (simp_all add: list_update_beyond)
      with 2 show ?thesis by simp
    qed
  qed
qed

lemma fold_narrow_rows: "rows (fold narrow_step ps df) = rows df"
  by (induction ps arbitrary: df) (simp_all add: narrow_step_rows)

lemma fold_narrow_labels: "labels (fold narrow_step ps df) = labels df"
  by (induction ps arbitrary: df) (simp_all add: narrow_step_labels)

lemma column_cong: "rows a = rows b \<Longrightarrow> column a i = column b i"
  by (simp add: column_def)

lemma fold_narrow_dtype:
  "snd (columns (fold narrow_step ps df) ! j) = snd (columns df ! j) \<or>
   (j \<in> set ps \<and> j < length (columns df) \<and> snd (columns (fold narrow_step ps df) ! j) = Int32 \<and>
    fits_int32 (column df j))"
proof (induction ps arbitrary: df)
  case Nil
  show ?case by simp
next
  case (Cons p ps)
  let ?d = "narrow_step p df"
  have len: "length (columns ?d) = length (columns df)"
    using narrow_step_labels[of p df] by (metis labels_def length_map)
  have col: "column ?d j = column df j"
    by (rule column_cong) (rule narrow_step_rows)
  from Cons.IH[of ?d] narrow_step_dtype[of p df j]
  show ?case
    by (auto simp: len col)
qed

lemma categorize_step_Inr:
  assumes "categorize_step i df = Inr d"
  shows "rows d = rows df" "labels d = labels df"
    "snd (columns d ! j) = snd (columns df ! j) \<or>
       (snd (columns df ! j) = Object \<and> snd (columns d ! j) = Category)"
proof -
  have "d = df \<or> (snd (columns df ! i) = Object \<and>
      d = df\<lparr>columns := (columns df)[i := (fst (columns df ! i), Category)]\<rparr>)"
    using assms by (auto simp: categorize_step_def Let_def split: if_splits)
  then show "rows d = rows df" "labels d = labels df"
    by (auto simp: labels_def map_fst_update_same)
  from \<open>d = df \<or> _\<close> show "snd (columns d ! j) = snd (columns df ! j) \<or>
       (snd (columns df ! j) = Object \<and> snd (columns d ! j) = Category)"
  proof
    assume "d = df" then show ?thesis by simp
  next
    assume a: "snd (columns df ! i) = Object \<and>
      d = df\<lparr>columns := (columns df)[i := (fst (columns df ! i), Category)]\<rparr>"
    show ?thesis
    proof (cases "j = i")
      case True
      with a show ?thesis by (cases "i < length (columns df)") (simp_all add: list_update_beyond)
    next
      case False
      with a show ?thesis by simp
    qed
  qed
qed

lemma loop_category_Inr:
  "loop_category ps df = Inr d \<Longrightarrow>
     rows d = rows df \<and> labels d = labels df \<and>
     (snd (columns d ! j) = snd (columns df ! j) \<or>
       (snd (columns df ! j) = Object \<and> snd (columns d ! j) = Category))"
proof (induction ps arbitrary: df)
  case Nil
  then show ?case by simp
next
  case (Cons p ps)
  from Cons.prems obtain d1 where s: "categorize_step p df = Inr d1" "loop_category ps d1 = Inr d"
    by (auto split: sum.splits)
  from Cons.IH[OF s(2)] categorize_step_Inr(1,2)[OF s(1)] categorize_step_Inr(3)[OF s(1), of j]
  show ?case by auto
qed

lemma distinct_filter_one:
  "distinct xs \<Longrightarrow> i < length xs \<Longrightarrow> length (filter (\<lambda>l. l = xs ! i) xs) = 1"
proof (induction xs arbitrary: i)
  case Nil
  then show ?case by simp
next
  case (Cons x xs)
  show ?case
  proof (cases i)
    case 0
    from Cons.prems have "filter (\<lambda>l. l = x) xs = []"
      by (auto simp: filter_empty_conv)
    with 0 show ?thesis by simp
  next
    case (Suc k)
    with Cons.prems have "xs ! k \<noteq> x" by auto
    with Suc Cons show ?thesis by auto
  qed
qed

lemma categorize_step_ok:
  assumes "distinct (labels df)" "i < length (columns df)" "rows df \<noteq> []"
  shows "\<exists>d. categorize_step i df = Inr d"
proof -
  have "fst (columns df ! i) = labels df ! i"
    using assms(2) by (simp add: labels_def)
  then have "length (filter (\<lambda>l. l = fst (columns df ! i)) (labels df)) = 1"
    using distinct_filter_one[OF assms(1), of i] assms(2) by (simp add: labels_def)
  then show ?thesis
    using assms(3) by (simp add: categorize_step_def Let_def)
qed

lemma loop_category_ok:
  "distinct (labels df) \<Longrightarrow> rows df \<noteq> [] \<Longrightarrow> \<forall>p \<in> set ps. p < length (columns df) \<Longrightarrow>
     \<exists>d. loop_category ps df = Inr d"
proof (induction ps arbitrary: df)
  case Nil
  show ?case by simp
next
  case (Cons p ps)
  then obtain d1 where s: "categorize_step p df = Inr d1"
    using categorize_step_ok[of df p] by auto
  have "labels d1 = labels df" "rows d1 = rows df"
    using categorize_step_Inr[OF s] by simp_all
  moreover from this have "length (columns d1) = length (columns df)"
    by (metis labels_def length_map)
  ultimately obtain d where "loop_category ps d1 = Inr d"
    using Cons.IH[of d1] Cons.prems by auto
  with s show ?case by simp
qed


lemma optimizar_Inr:
  assumes "optimizar_tipos_datos df = Inr out"
  shows "rows out = rows df" "labels out = labels df"
    "snd (columns out ! j) = Int32 \<Longrightarrow> snd (columns df ! j) \<noteq> Int32 \<Longrightarrow>
       snd (columns df ! j) = Int64 \<and> fits_int32 (column df j)"
proof -
  from assms obtain d1 where d1: "loop_category [0..<length (columns df)] df = Inr d1"
    and out: "out = fold narrow_step (int64_positions d1) d1"
    by (auto simp: optimizar_tipos_datos_def split: sum.splits)
  have r1: "rows d1 = rows df" and l1: "labels d1 = labels df"
    using loop_category_Inr[OF d1, of 0] by simp_all
  show "rows out = rows df" by (simp add: out fold_narrow_rows r1)
  show "labels out = labels df" by (simp add: out fold_narrow_labels l1)
  assume a: "snd (columns out ! j) = Int32" "snd (columns df ! j) \<noteq> Int32"
  have t1: "snd (columns d1 ! j) = snd (columns df ! j) \<or>
       (snd (columns df ! j) = Object \<and> snd (columns d1 ! j) = Category)"
    using loop_category_Inr[OF d1, of j] by simp
  have "snd (columns out ! j) = snd (columns d1 ! j) \<or>
     (j \<in> set (int64_positions d1) \<and> fits_int32 (column d1 j))"
    using fold_narrow_dtype[of "int64_positions d1" d1 j] by (auto simp: out)
  with a t1 have "j \<in> set (int64_positions d1) \<and> fits_int32 (column d1 j)"
    by auto
  then have "snd (columns d1 ! j) = Int64" "fits_int32 (column d1 j)"
    by (simp_all add: int64_positions_def)
  with t1 show "snd (columns df ! j) = Int64 \<and> fits_int32 (column df j)"
    using column_cong[OF r1, of j] by auto
qed

lemma optimizar_ok:
  assumes "rows df \<noteq> []" "distinct (labels df)"
  shows "\<exists>out. optimizar_tipos_datos df = Inr out"
proof -
  obtain d1 where "loop_category [0..<length (columns df)] df = Inr d1"
    using loop_category_ok[OF assms(2,1), of "[0..<length (columns df)]"] by auto
  then show ?thesis by (simp add: optimizar_tipos_datos_def)
qed

text \<open>
  C10. Whenever the optimization returns, the output has the rows of the input, cell for
  cell, hence the same number of rows, and the same column labels in the same order; a
  column whose dtype has become int32 was an int64 column all of whose values lie in the
  int32 range, so the cast changes none of them. It does return for every frame with at
  least one row whose labels are distinct (a frame without rows and with an object
  column divides by zero, a repeated label raises).
\<close>

theorem optimizar_tipos_datos_preserves:
  "(\<forall>out. optimizar_tipos_datos df = Inr out \<longrightarrow>
      length (rows out) = length (rows df) \<and> labels out = labels df \<and> rows out = rows df \<and>
      (\<forall>i. snd (columns out ! i) = Int32 \<and> snd (columns df ! i) \<noteq> Int32 \<longrightarrow>
          snd (columns df ! i) = Int64 \<and>
          (\<forall>v. I v \<in> set (column df i) \<longrightarrow> - 2147483648 \<le> v \<and> v \<le> 2147483647))) \<and>
   (rows df \<noteq> [] \<and> distinct (labels df) \<longrightarrow> (\<exists>out. optimizar_tipos_datos df = Inr out))"
proof (intro conjI allI impI)
  fix out assume o: "optimizar_tipos_datos df = Inr out"
  show "rows out = rows df" "labels out = labels df"
    using optimizar_Inr(1,2)[OF o] by simp_all
  then show "length (rows out) = length (rows df)" by simp
next
  fix out i assume o: "optimizar_tipos_datos df = Inr out"
    and "snd (columns out ! i) = Int32 \<and> snd (columns df ! i) \<noteq> Int32"
  then have r: "snd (columns df ! i) = Int64 \<and> fits_int32 (column df i)"
    using optimizar_Inr(3)[OF o, of i] by simp
  then show "snd (columns df ! i) = Int64" by simp
  fix v assume "I v \<in> set (column df i)"
  with r show "- 2147483648 \<le> v" "v \<le> 2147483647"
    by (simp_all add: fits_int32_iff)
next
  assume "rows df \<noteq> [] \<and> distinct (labels df)"
  then show "\<exists>out. optimizar_tipos_datos df = Inr out"
    using optimizar_ok by simp
qed

lemma optimizar_counts_example:
  "optimizar_tipos_datos counts_example =
     Inr \<lparr>columns = [(''project_id'', Int32), (''class'', Category), (''placename'', Object),
                     (''total'', Int64)],
          rows = rows counts_example\<rparr>"
  by (simp add: optimizar_tipos_datos_def counts_example_def categorize_step_def labels_def
      nunique_def column_def cell_at_def int64_positions_def narrow_step_def col_min_def
      col_max_def upt_rec Let_def)

theorem optimizar_tipos_datos_preserves_witness:
  "rows counts_example \<noteq> [] \<and> distinct (labels counts_example) \<and>
   (\<exists>out. optimizar_tipos_datos counts_example = Inr out \<and> rows out = rows counts_example \<and>
      snd (columns out ! 0) = Int32 \<and> snd (columns out ! 3) = Int64)"
  using optimizar_tipos_datos_preserves [of counts_example] optimizar_counts_example
  by (simp add: counts_example_def labels_def)


section \<open>Facts about the timestamp normalizer\<close>



lemma notna_sum_pos: "0 < notna_sum parsed \<longleftrightarrow> list_ex (\<lambda>x. x \<noteq> None) parsed"
  by (auto simp: notna_sum_def filter_empty_conv list_ex_iff)

lemma probar_formatos_none:
  assumes "find (formato_valido strict col) fs = None"
    and "tp = None \<or> (\<exists>p. tp = Some p \<and> notna_sum p = 0)"
  shows "\<exists>tp' fe'. probar_formatos strict col fs (tp, fe) = (tp', fe') \<and>
           (tp' = None \<or> (\<exists>p. tp' = Some p \<and> notna_sum p = 0))"
  using assms
proof (induction fs arbitrary: tp fe)
  case Nil
  then show ?case by simp
next
  case (Cons f fs)
  from Cons.prems(1) have nf: "\<not> formato_valido strict col f" "find (formato_valido strict col) fs = None"
    by (auto split: if_splits)
  show ?case
  proof (cases "strict f col")
    case None
    with Cons.IH[OF nf(2) Cons.prems(2)] show ?thesis by simp
  next
    case (Some parsed)
    with nf(1) have z: "notna_sum parsed = 0"
      using notna_sum_pos[of parsed] by (auto simp: formato_valido_def)
    then have "Some parsed = None \<or> (\<exists>p. Some parsed = Some p \<and> notna_sum p = 0)" by simp
    from Cons.IH[OF nf(2) this, of fe] Some z show ?thesis by simp
  qed
qed

lemma probar_formatos_some:
  assumes "find (formato_valido strict col) fs = Some f"
  shows "\<exists>parsed. strict f col = Some parsed \<and> 0 < notna_sum parsed \<and>
           probar_formatos strict col fs (tp, fe) = (Some parsed, Some f)"
  using assms
proof (induction fs arbitrary: tp fe)
  case Nil
  then show ?case by simp
next
  case (Cons g fs)
  show ?case
  proof (cases "formato_valido strict col g")
    case True
    with Cons.prems have gf: "g = f" by simp
    from True obtain parsed where p: "strict g col = Some parsed" "list_ex (\<lambda>x. x \<noteq> None) parsed"
      by (auto simp: formato_valido_def split: option.splits)
    from p(2) have "0 < notna_sum parsed" by (simp only: notna_sum_pos)
    with p(1) gf show ?thesis by simp
  next
    case False
    with Cons.prems have fnd: "find (formato_valido strict col) fs = Some f" by simp
    show ?thesis
    proof (cases "strict g col")
      case None
      with Cons.IH[OF fnd] show ?thesis by simp
    next
      case (Some p)
      with False have "notna_sum p = 0"
        using notna_sum_pos[of p] by (auto simp: formato_valido_def)
      with Some Cons.IH[OF fnd] show ?thesis by simp
    qed
  qed
qed

lemma parse_column_choice:
  "(case find (formato_valido strict col) fs of
      None \<Rightarrow> parse_column strict generic fs col = generic col
    | Some f \<Rightarrow> strict f col = Some (parse_column strict generic fs col))"
proof (cases "find (formato_valido strict col) fs")
  case None
  from probar_formatos_none[OF None, of None None]
  obtain tp' fe' where "probar_formatos strict col fs (None, None) = (tp', fe')"
    "tp' = None \<or> (\<exists>p. tp' = Some p \<and> notna_sum p = 0)" by auto
  with None show ?thesis by (auto simp: parse_column_def)
next
  case (Some f)
  from probar_formatos_some[OF Some, of None None]
  obtain parsed where "strict f col = Some parsed" "0 < notna_sum parsed"
    "probar_formatos strict col fs (None, None) = (Some parsed, Some f)" by auto
  with Some show ?thesis by (simp add: parse_column_def)
qed


lemma index_of_less: "x \<in> set xs \<Longrightarrow> index_of x xs < length xs"
  by (induction xs) auto

lemma nth_index_of: "x \<in> set xs \<Longrightarrow> xs ! index_of x xs = x"
  by (induction xs) auto

lemma index_of_append_mem: "x \<in> set xs \<Longrightarrow> index_of x (xs @ ys) = index_of x xs"
  by (induction xs) auto

lemma index_of_append_new: "x \<notin> set xs \<Longrightarrow> index_of x (xs @ [x]) = length xs"
  by (induction xs) auto

lemma map_enumerate_index_from:
  "map (\<lambda>(k, r). f k) (enumerate n rs) = map f [n..<n + length rs]"
proof (induction rs arbitrary: n)
  case Nil
  show ?case by simp
next
  case (Cons r rs)
  have "n < n + length (r # rs)" by simp
  then have "[n..<n + length (r # rs)] = n # [Suc n..<n + length (r # rs)]"
    by (rule upt_conv_Cons)
  moreover have "n + length (r # rs) = Suc n + length rs" by simp
  ultimately have "[n..<n + length (r # rs)] = n # [Suc n..<Suc n + length rs]"
    by (simp only:)
  with Cons[of "Suc n"] show ?case by (simp del: upt_Suc)
qed

lemma map_enumerate_index:
  "map (\<lambda>(k, r). f k) (enumerate 0 rs) = map f [0..<length rs]"
  using map_enumerate_index_from[of f 0 rs] by simp

lemma map_enumerate_row:
  "map (\<lambda>(k, r). g r) (enumerate n rs) = map g rs"
  by (induction rs arbitrary: n) simp_all

lemma enumerate_snd_mem: "x \<in> set (enumerate n xs) \<Longrightarrow> snd x \<in> set xs"
  by (induction xs arbitrary: n) auto

lemma get_labels_cong: "labels a = labels b \<Longrightarrow> get a c = get b c"
  by (simp add: get_def fun_eq_iff)

lemma rows_assign_column:
  "rows (assign_column df c dt vals) =
     (if c \<in> set (labels df)
      then map (\<lambda>(k, r). r[index_of c (labels df) := cell_at vals k]) (enumerate 0 (rows df))
      else map (\<lambda>(k, r). r @ [cell_at vals k]) (enumerate 0 (rows df)))"
  by (simp add: assign_column_def set_column_def Let_def)

lemma labels_assign_column:
  "labels (assign_column df c dt vals) =
     (if c \<in> set (labels df) then labels df else labels df @ [c])"
  by (simp add: assign_column_def labels_def Let_def map_fst_update_index)

lemma length_rows_assign_column [simp]:
  "length (rows (assign_column df c dt vals)) = length (rows df)"
  by (simp add: assign_column_def set_column_def Let_def)

lemma length_columns_assign_column:
  "length (columns (assign_column df c dt vals)) =
     (if c \<in> set (labels df) then length (columns df) else Suc (length (columns df)))"
  by (simp add: assign_column_def Let_def)

lemma wf_assign_column: "wf_frame df \<Longrightarrow> wf_frame (assign_column df c dt vals)"
  by (auto simp: wf_frame_def assign_column_def set_column_def Let_def list_all_iff
      in_set_enumerate_eq)

lemma column_named_assign_same:
  assumes "wf_frame df"
  shows "column_named (assign_column df c dt vals) c = map (cell_at vals) [0..<length (rows df)]"
proof (cases "c \<in> set (labels df)")
  case True
  let ?i = "index_of c (labels df)"
  have i: "?i < length (columns df)"
    using index_of_less[OF True] by (simp add: labels_def)
  have "column_named (assign_column df c dt vals) c =
      map (\<lambda>(k, r). cell_at (r[?i := cell_at vals k]) ?i) (enumerate 0 (rows df))"
    using True
    by (simp add: column_named_def get_def labels_assign_column rows_assign_column
        case_prod_unfold comp_def)
  also have "\<dots> = map (\<lambda>(k, r). cell_at vals k) (enumerate 0 (rows df))"
  proof (rule map_cong[OF refl])
    fix x assume "x \<in> set (enumerate 0 (rows df))"
    then have "snd x \<in> set (rows df)" by (rule enumerate_snd_mem)
    with assms i have "?i < length (snd x)" by (simp add: wf_frame_def list_all_iff)
    then show "(case x of (k, r) \<Rightarrow> cell_at (r[?i := cell_at vals k]) ?i) =
        (case x of (k, r) \<Rightarrow> cell_at vals k)"
      by (cases x) (simp add: cell_at_def)
  qed
  also have "\<dots> = map (cell_at vals) [0..<length (rows df)]" by (rule map_enumerate_index)
  finally show ?thesis .
next
  case False
  let ?n = "length (columns df)"
  have idx: "index_of c (labels df @ [c]) = ?n"
    using index_of_append_new[OF False] by (simp add: labels_def)
  have "column_named (assign_column df c dt vals) c =
      map (\<lambda>(k, r). cell_at (r @ [cell_at vals k]) ?n) (enumerate 0 (rows df))"
    using False
    by (simp add: column_named_def get_def labels_assign_column rows_assign_column idx
        case_prod_unfold comp_def)
  also have "\<dots> = map (\<lambda>(k, r). cell_at vals k) (enumerate 0 (rows df))"
  proof (rule map_cong[OF refl])
    fix x assume "x \<in> set (enumerate 0 (rows df))"
    then have "snd x \<in> set (rows df)" by (rule enumerate_snd_mem)
    with assms have "length (snd x) = ?n" by (simp add: wf_frame_def list_all_iff)
    then show "(case x of (k, r) \<Rightarrow> cell_at (r @ [cell_at vals k]) ?n) =
        (case x of (k, r) \<Rightarrow> cell_at vals k)"
      by (cases x) (auto simp: cell_at_def nth_append)
  qed
  also have "\<dots> = map (cell_at vals) [0..<length (rows df)]" by (rule map_enumerate_index)
  finally show ?thesis .
qed

lemma column_named_assign_other:
  assumes "wf_frame df" "c' \<in> set (labels df)" "c' \<noteq> c"
  shows "column_named (assign_column df c dt vals) c' = column_named df c'"
proof (cases "c \<in> set (labels df)")
  case True
  let ?i = "index_of c (labels df)"
  let ?j = "index_of c' (labels df)"
  have ne: "?j \<noteq> ?i"
    using nth_index_of[OF True] nth_index_of[OF assms(2)] assms(3) by metis
  have "column_named (assign_column df c dt vals) c' =
      map (\<lambda>(k, r). cell_at (r[?i := cell_at vals k]) ?j) (enumerate 0 (rows df))"
    using True
    by (simp add: column_named_def get_def labels_assign_column rows_assign_column
        case_prod_unfold comp_def)
  also have "\<dots> = map (\<lambda>(k, r). cell_at r ?j) (enumerate 0 (rows df))"
    using ne by (auto simp: cell_at_def)
  also have "\<dots> = map (\<lambda>r. cell_at r ?j) (rows df)" by (rule map_enumerate_row)
  finally show ?thesis by (simp add: column_named_def get_def)
next
  case False
  let ?j = "index_of c' (labels df)"
  have j: "?j < length (columns df)"
    using index_of_less[OF assms(2)] by (simp add: labels_def)
  have idx: "index_of c' (labels df @ [c]) = ?j"
    by (rule index_of_append_mem[OF assms(2)])
  have "column_named (assign_column df c dt vals) c' =
      map (\<lambda>(k, r). cell_at (r @ [cell_at vals k]) ?j) (enumerate 0 (rows df))"
    using False
    by (simp add: column_named_def get_def labels_assign_column rows_assign_column idx
        case_prod_unfold comp_def)
  also have "\<dots> = map (\<lambda>(k, r). cell_at r ?j) (enumerate 0 (rows df))"
  proof (rule map_cong[OF refl])
    fix x assume "x \<in> set (enumerate 0 (rows df))"
    then have "snd x \<in> set (rows df)" by (rule enumerate_snd_mem)
    with assms(1) j have "?j < length (snd x)" by (simp add: wf_frame_def list_all_iff)
    then show "(case x of (k, r) \<Rightarrow> cell_at (r @ [cell_at vals k]) ?j) =
        (case x of (k, r) \<Rightarrow> cell_at r ?j)"
      by (cases x) (simp add: cell_at_def nth_append)
  qed
  also have "\<dots> = map (\<lambda>r. cell_at r ?j) (rows df)" by (rule map_enumerate_row)
  finally show ?thesis by (simp add: column_named_def get_def)
qed


lemma assign_keeps:
  assumes "wf_frame d" "c' \<in> set (labels d)" "c' \<noteq> c"
  shows "wf_frame (assign_column d c dt v) \<and> c' \<in> set (labels (assign_column d c dt v)) \<and>
     column_named (assign_column d c dt v) c' = column_named d c' \<and>
     length (rows (assign_column d c dt v)) = length (rows d)"
  using assms
  by (simp add: wf_assign_column labels_assign_column column_named_assign_other)

lemma assign_sets:
  assumes "wf_frame d"
  shows "wf_frame (assign_column d c dt v) \<and> c \<in> set (labels (assign_column d c dt v)) \<and>
     column_named (assign_column d c dt v) c = map (cell_at v) [0..<length (rows d)] \<and>
     length (rows (assign_column d c dt v)) = length (rows d)"
  using assms
  by (simp add: wf_assign_column labels_assign_column column_named_assign_same)

lemma procesar_photo_datetime:
  assumes "columna \<in> set (labels df)" "wf_frame df"
  shows "column_named (procesar_timestamps strict generic df columna) ''photo_datetime'' =
     map (cell_at (map (case_option NA T)
            (parse_column strict generic formatos_fecha (column_named df columna))))
       [0..<length (rows df)]"
proof -
  define parsed where "parsed = parse_column strict generic formatos_fecha (column_named df columna)"
  define stamps where "stamps = map (case_option NA T) parsed"
  define dt where "dt = dt_field_dtype parsed"
  define d1 where "d1 = assign_column df ''timestamp_parsed'' Datetime64 stamps"
  define d2 where "d2 = assign_column d1 ''photo_datetime'' Datetime64 stamps"
  define d3 where "d3 = assign_column d2 ''photo_date'' Object (dt_date parsed)"
  define d4 where "d4 = assign_column d3 ''year'' dt (dt_field year parsed)"
  define d5 where "d5 = assign_column d4 ''month'' dt (dt_field month parsed)"
  define d6 where "d6 = assign_column d5 ''day'' dt (dt_field day parsed)"
  define d7 where "d7 = assign_column d6 ''hour'' dt (dt_field hour parsed)"
  define d8 where "d8 = assign_column d7 ''minute'' dt (dt_field minute parsed)"
  have out: "procesar_timestamps strict generic df columna = d8"
    using assms(1)
    by (simp add: procesar_timestamps_def Let_def d8_def d7_def d6_def d5_def d4_def d3_def
        d2_def d1_def dt_def stamps_def parsed_def)
  have s1: "wf_frame d1 \<and> length (rows d1) = length (rows df)"
    unfolding d1_def using assign_sets[OF assms(2)] by simp
  have s2: "wf_frame d2 \<and> ''photo_datetime'' \<in> set (labels d2) \<and>
      column_named d2 ''photo_datetime'' = map (cell_at stamps) [0..<length (rows df)]"
    unfolding d2_def using assign_sets[of d1 "''photo_datetime''" Datetime64 stamps] s1 by simp
  have s3: "wf_frame d3 \<and> ''photo_datetime'' \<in> set (labels d3) \<and>
      column_named d3 ''photo_datetime'' = map (cell_at stamps) [0..<length (rows df)]"
    unfolding d3_def
    using assign_keeps[of d2 "''photo_datetime''" "''photo_date''" Object "dt_date parsed"] s2
    by simp
  have s4: "wf_frame d4 \<and> ''photo_datetime'' \<in> set (labels d4) \<and>
      column_named d4 ''photo_datetime'' = map (cell_at stamps) [0..<length (rows df)]"
    unfolding d4_def
    using assign_keeps[of d3 "''photo_datetime''" "''year''" dt "dt_field year parsed"] s3
    by simp
  have s5: "wf_frame d5 \<and> ''photo_datetime'' \<in> set (labels d5) \<and>
      column_named d5 ''photo_datetime'' = map (cell_at stamps) [0..<length (rows df)]"
    unfolding d5_def
    using assign_keeps[of d4 "''photo_datetime''" "''month''" dt "dt_field month parsed"] s4
    by simp
  have s6: "wf_frame d6 \<and> ''photo_datetime'' \<in> set (labels d6) \<and>
      column_named d6 ''photo_datetime'' = map (cell_at stamps) [0..<length (rows df)]"
    unfolding d6_def
    using assign_keeps[of d5 "''photo_datetime''" "''day''" dt "dt_field day parsed"] s5
    by simp
  have s7: "wf_frame d7 \<and> ''photo_datetime'' \<in> set (labels d7) \<and>
      column_named d7 ''photo_datetime'' = map (cell_at stamps) [0..<length (rows df)]"
    unfolding d7_def
    using assign_keeps[of d6 "''photo_datetime''" "''hour''" dt "dt_field hour parsed"] s6
    by simp
  have s8: "wf_frame d8 \<and> ''photo_datetime'' \<in> set (labels d8) \<and>
      column_named d8 ''photo_datetime'' = map (cell_at stamps) [0..<length (rows df)]"
    unfolding d8_def
    using assign_keeps[of d7 "''photo_datetime''" "''minute''" dt "dt_field minute parsed"] s7
    by simp
  show ?thesis using s8 by (simp add: out stamps_def parsed_def)
qed

lemma parse_raw_example:
  "parse_column iso_only generic formatos_fecha [S ''a'', S ''b'', NA] =
     [Some (midnight 2025 1 15), None, None]"
  by (simp add: parse_column_def formatos_fecha_def iso_only_def notna_sum_def)

text \<open>
  C6. The timestamp parsed for a column is what the first format of the fixed list that
  parses the column with at least one valid entry yields for the whole column; when no
  format of the list does, it is what the generic parser yields. A frame without the
  timestamp column is returned as it is; otherwise (for a frame with distinct labels and
  full rows) the column \<open>photo_datetime\<close> of the output holds, row by row, the
  timestamp parsed for that row, and the missing value exactly where the chosen parser
  read nothing: no other date is ever substituted.
\<close>

theorem procesar_timestamps_format_choice:
  "(case find (formato_valido strict col) formatos_fecha of
      None \<Rightarrow> parse_column strict generic formatos_fecha col = generic col
    | Some f \<Rightarrow> strict f col = Some (parse_column strict generic formatos_fecha col)) \<and>
   (columna \<notin> set (labels df) \<longrightarrow> procesar_timestamps strict generic df columna = df) \<and>
   (columna \<in> set (labels df) \<and> distinct (labels df) \<and> wf_frame df \<longrightarrow>
      (let parsed = parse_column strict generic formatos_fecha (column_named df columna);
           out = procesar_timestamps strict generic df columna
       in column_named out ''photo_datetime'' =
            map (cell_at (map (case_option NA T) parsed)) [0..<length (rows df)] \<and>
          (\<forall>k < length (rows df). k < length parsed \<longrightarrow>
             column_named out ''photo_datetime'' ! k =
               (case parsed ! k of None \<Rightarrow> NA | Some t \<Rightarrow> T t))))"
proof (intro conjI impI)
  show "case find (formato_valido strict col) formatos_fecha of
      None \<Rightarrow> parse_column strict generic formatos_fecha col = generic col
    | Some f \<Rightarrow> strict f col = Some (parse_column strict generic formatos_fecha col)"
    by (rule parse_column_choice)
  show "procesar_timestamps strict generic df columna = df" if "columna \<notin> set (labels df)"
    using that by (simp add: procesar_timestamps_def)
  assume a: "columna \<in> set (labels df) \<and> distinct (labels df) \<and> wf_frame df"
  define parsed where "parsed = parse_column strict generic formatos_fecha (column_named df columna)"
  define out where "out = procesar_timestamps strict generic df columna"
  have c: "column_named out ''photo_datetime'' =
            map (cell_at (map (case_option NA T) parsed)) [0..<length (rows df)]"
    using a procesar_photo_datetime[of columna df strict generic] by (simp add: out_def parsed_def)
  have "\<forall>k < length (rows df). k < length parsed \<longrightarrow>
             column_named out ''photo_datetime'' ! k =
               (case parsed ! k of None \<Rightarrow> NA | Some t \<Rightarrow> T t)"
    by (simp add: c cell_at_def)
  with c show "let parsed = parse_column strict generic formatos_fecha (column_named df columna);
           out = procesar_timestamps strict generic df columna
       in column_named out ''photo_datetime'' =
            map (cell_at (map (case_option NA T) parsed)) [0..<length (rows df)] \<and>
          (\<forall>k < length (rows df). k < length parsed \<longrightarrow>
             column_named out ''photo_datetime'' ! k =
               (case parsed ! k of None \<Rightarrow> NA | Some t \<Rightarrow> T t))"
    by (simp add: Let_def out_def parsed_def)
qed


theorem procesar_timestamps_format_choice_witness:
  "''timestamp'' \<in> set (labels raw_example) \<and> distinct (labels raw_example) \<and>
   wf_frame raw_example \<and>
   find (formato_valido iso_only [S ''a'', S ''b'', NA]) formatos_fecha =
     Some ''%Y-%m-%dT%H:%M:%S'' \<and>
   column_named (procesar_timestamps iso_only (\<lambda>c. []) raw_example ''timestamp'')
     ''photo_datetime'' = [T (midnight 2025 1 15), NA, NA]"
proof -
  have col: "column_named raw_example ''timestamp'' = [S ''a'', S ''b'', NA]"
    by (simp add: column_named_def raw_example_def get_def labels_def cell_at_def)
  have pres: "''timestamp'' \<in> set (labels raw_example)" "wf_frame raw_example"
    "length (rows raw_example) = 3" "distinct (labels raw_example)"
    by (simp_all add: raw_example_def labels_def wf_frame_def)
  have fnd: "find (formato_valido iso_only [S ''a'', S ''b'', NA]) formatos_fecha =
     Some ''%Y-%m-%dT%H:%M:%S''"
    by (simp add: formato_valido_def formatos_fecha_def iso_only_def)
  have "column_named (procesar_timestamps iso_only (\<lambda>c. []) raw_example ''timestamp'')
      ''photo_datetime'' =
    map (cell_at (map (case_option NA T)
           (parse_column iso_only (\<lambda>c. []) formatos_fecha
              (column_named raw_example ''timestamp''))))
      [0..<length (rows raw_example)]"
    using procesar_timestamps_format_choice
      [where strict = iso_only and generic = "\<lambda>c. []" and col = "[]"
        and columna = "''timestamp''" and df = raw_example] pres(1,2,4)
    by (simp add: Let_def)
  also have "\<dots> = [T (midnight 2025 1 15), NA, NA]"
    by (simp add: col parse_raw_example pres(3) cell_at_def upt_rec)
  finally show ?thesis using pres(1,2,4) fnd by simp
qed

section \<open>Facts about the jurisdiction assigner and the orchestrator\<close>


lemma fold_max_ge_init: "a \<le> fold (\<lambda>v m. max (f v) m) xs (a::nat)"
proof (induction xs arbitrary: a)
  case Nil
  show ?case by simp
next
  case (Cons x xs)
  have "max (f x) a \<le> fold (\<lambda>v m. max (f v) m) xs (max (f x) a)" by (rule Cons.IH)
  then show ?case by simp
qed

lemma fold_max_ge_elem: "v \<in> set xs \<Longrightarrow> f v \<le> fold (\<lambda>v m. max (f v) m) xs (a::nat)"
proof (induction xs arbitrary: a)
  case Nil
  then show ?case by simp
next
  case (Cons x xs)
  show ?case
  proof (cases "v = x")
    case True
    have "max (f x) a \<le> fold (\<lambda>v m. max (f v) m) xs (max (f x) a)"
      by (rule fold_max_ge_init)
    with True show ?thesis by simp
  next
    case False
    with Cons.prems have "v \<in> set xs" by simp
    from Cons.IH[OF this] show ?thesis by simp
  qed
qed

lemma fold_max_attained:
  "fold (\<lambda>v m. max (f v) m) xs (a::nat) = a \<or>
   (\<exists>v \<in> set xs. fold (\<lambda>v m. max (f v) m) xs a = f v)"
proof (induction xs arbitrary: a)
  case Nil
  show ?case by simp
next
  case (Cons x xs)
  from Cons.IH[of "max (f x) a"] show ?case
    by (auto simp: max_def split: if_splits)
qed

lemma count_list_pos: "0 < count_list xs v \<longleftrightarrow> v \<in> set xs"
  by (induction xs) auto

lemma count_map_filter_id: "count_list (List.map_filter id x) v = count_list x (Some v)"
  by (induction x) (auto simp: List.map_filter_simps split: option.splits)

lemma set_map_filter_id: "v \<in> set (List.map_filter id x) \<longleftrightarrow> Some v \<in> set x"
  using count_list_pos[of "List.map_filter id x" v] count_list_pos[of x "Some v"]
  by (simp add: count_map_filter_id)

lemma top_count_ge: "count_list x (Some v) \<le> top_count x"
proof (cases "Some v \<in> set x")
  case True
  then have "v \<in> set (List.map_filter id x)" by (simp add: set_map_filter_id)
  from fold_max_ge_elem[OF this, of "count_list (List.map_filter id x)" 0]
  show ?thesis by (simp add: top_count_def count_map_filter_id)
next
  case False
  then have "count_list x (Some v) = 0" using count_list_pos[of x "Some v"] by simp
  then show ?thesis by simp
qed

lemma top_count_attained:
  assumes "Some w \<in> set x"
  shows "\<exists>v. Some v \<in> set x \<and> count_list x (Some v) = top_count x"
proof -
  let ?vals = "List.map_filter id x"
  have w: "0 < count_list x (Some w)" using assms by (simp add: count_list_pos)
  from fold_max_attained[of "count_list ?vals" ?vals 0]
  consider "top_count x = 0" | "\<exists>v \<in> set ?vals. top_count x = count_list ?vals v"
    by (auto simp: top_count_def Let_def)
  then show ?thesis
  proof cases
    case 1
    with top_count_ge[of x w] w show ?thesis by simp
  next
    case 2
    then show ?thesis by (auto simp: set_map_filter_id count_map_filter_id)
  qed
qed

lemma set_series_mode:
  "set (series_mode x) = {v. Some v \<in> set x \<and> count_list x (Some v) = top_count x}"
  by (auto simp: series_mode_def top_count_def Let_def set_map_filter_id count_map_filter_id)

lemma sorted_series_mode: "sorted (series_mode x)"
  by (simp add: series_mode_def Let_def)

lemma agg_mode_Some:
  assumes "agg_mode x = Some j"
  shows "Some j \<in> set x" "count_list x (Some j) = top_count x"
    "\<And>j'. Some j' \<in> set x \<Longrightarrow> count_list x (Some j') = top_count x \<Longrightarrow> j \<le> j'"
proof -
  from assms obtain rest where m: "series_mode x = j # rest"
    by (auto simp: agg_mode_def split: list.splits)
  then have "j \<in> set (series_mode x)" by simp
  then show "Some j \<in> set x" "count_list x (Some j) = top_count x"
    by (simp_all add: set_series_mode)
  fix j' assume "Some j' \<in> set x" "count_list x (Some j') = top_count x"
  then have "j' \<in> set (series_mode x)" by (simp add: set_series_mode)
  with m sorted_series_mode[of x] show "j \<le> j'" by auto
qed

lemma agg_mode_None: "agg_mode x = None \<longleftrightarrow> (\<forall>c \<in> set x. c = None)"
proof
  assume "agg_mode x = None"
  then have "set (series_mode x) = {}" by (auto simp: agg_mode_def split: list.splits)
  then have "\<not> (\<exists>w. Some w \<in> set x)"
    using top_count_attained[of _ x] by (auto simp: set_series_mode)
  then show "\<forall>c \<in> set x. c = None" by (metis not_Some_eq)
next
  assume "\<forall>c \<in> set x. c = None"
  then have "set (series_mode x) = {}" by (auto simp: set_series_mode)
  then show "agg_mode x = None" by (simp add: agg_mode_def)
qed

lemma agg_mode_most_frequent:
  assumes "agg_mode x = Some j"
  shows "Some j \<in> set x \<and> (\<forall>j'. count_list x (Some j') \<le> count_list x (Some j)) \<and>
     (\<forall>j'. count_list x (Some j') = count_list x (Some j) \<longrightarrow> j \<le> j')"
proof (intro conjI allI impI)
  show "Some j \<in> set x" by (rule agg_mode_Some(1)[OF assms])
  show "count_list x (Some j') \<le> count_list x (Some j)" for j'
    using agg_mode_Some(2)[OF assms] top_count_ge[of x j'] by simp
  fix j' assume e: "count_list x (Some j') = count_list x (Some j)"
  have "0 < count_list x (Some j)" using agg_mode_Some(1)[OF assms] by (simp add: count_list_pos)
  with e have "Some j' \<in> set x" by (simp add: count_list_pos[symmetric])
  with e show "j \<le> j'" using agg_mode_Some(2,3)[OF assms] by simp
qed

lemma agg_mode_plurality:
  assumes "Some a \<in> set x" "\<forall>j'. j' \<noteq> a \<longrightarrow> count_list x (Some j') < count_list x (Some a)"
  shows "agg_mode x = Some a"
proof (cases "agg_mode x")
  case None
  with assms(1) show ?thesis by (auto simp: agg_mode_None)
next
  case (Some j)
  have "count_list x (Some a) \<le> count_list x (Some j)"
    using agg_mode_most_frequent[OF Some] by simp
  with assms(2) have "j = a" by (metis not_le)
  with Some show ?thesis by simp
qed

lemma map_of_tabulate:
  "map_of (map (\<lambda>p. (p, f p)) ps) p = (if p \<in> set ps then Some (f p) else None)"
  by (induction ps) auto

lemma group_values_absent:
  "p \<notin> set (map (\<lambda>(d, q, c). q) corps) \<Longrightarrow> group_values corps p = []"
  by (force simp: group_values_def filter_empty_conv)

lemma corporacion_de_project_corps:
  "corporacion_de (project_corps corps) p = agg_mode (group_values corps p)"
proof (cases "p \<in> set (map (\<lambda>(d, q, c). q) corps)")
  case True
  then show ?thesis
    by (simp add: corporacion_de_def project_corps_def map_of_tabulate)
next
  case False
  then have "group_values corps p = []" by (rule group_values_absent)
  moreover have "agg_mode [] = None" by (simp add: agg_mode_None)
  ultimately show ?thesis using False
    by (simp add: corporacion_de_def project_corps_def map_of_tabulate)
qed

lemma set_unique [simp]: "set (unique xs) = set xs"
  by (simp add: unique_def)

lemma distinct_unique [simp]: "distinct (unique xs)"
  by (simp add: unique_def)

lemma corporacion_de_null: "corporacion_de (crear_corporaciones_null deps) p = None"
  by (simp add: corporacion_de_def crear_corporaciones_null_def map_of_tabulate)

lemma sjoin_without_coordinates:
  "\<not> has_coordinates d \<Longrightarrow> sjoin_within is_within gdf d = []"
  by (auto simp: has_coordinates_def sjoin_within_def split: option.splits)

lemma deployment_corps_valid_only:
  "deployment_corps is_within gdf deps =
     deployment_corps is_within gdf (filter has_coordinates deps)"
  by (simp add: deployment_corps_def)

lemma deployment_corps_no_valid:
  "filter has_coordinates deps = [] \<Longrightarrow> deployment_corps is_within gdf deps = []"
  by (simp add: deployment_corps_def)

lemma corporacion_de_asignar:
  "corporacion_de (asignar_corporacion_geografica is_within (With_nombre_car gdf) deps) p =
     agg_mode (group_values (deployment_corps is_within gdf deps) p)"
proof (cases "filter has_coordinates deps = []")
  case True
  then have "group_values (deployment_corps is_within gdf deps) p = []"
    by (simp add: deployment_corps_no_valid group_values_def)
  moreover have "agg_mode [] = None" by (simp add: agg_mode_None)
  ultimately show ?thesis using True
    by (simp add: asignar_corporacion_geografica_def corporacion_de_null)
next
  case False
  then show ?thesis
    by (simp add: asignar_corporacion_geografica_def corporacion_de_project_corps)
qed


lemma deployment_corps_origin:
  "(i, q, c) \<in> set (deployment_corps is_within gdf deps) \<Longrightarrow>
     \<exists>d \<in> set deps. has_coordinates d \<and> project_id d = q \<and> deployment_id d = i"
  by (auto simp: deployment_corps_def sjoin_within_def has_coordinates_def Let_def
      split: option.splits if_splits)

lemma group_values_no_coordinates:
  assumes "\<forall>d \<in> set deps. project_id d = p \<longrightarrow> \<not> has_coordinates d"
  shows "group_values (deployment_corps is_within gdf deps) p = []"
proof -
  have "\<not> (\<exists>i c. (i, p, c) \<in> set (deployment_corps is_within gdf deps))"
    using assms deployment_corps_origin[of _ p _ is_within gdf deps] by blast
  then show ?thesis by (force simp: group_values_def filter_empty_conv)
qed

lemma three_to_one_rows:
  "group_values (deployment_corps in_box cars_example three_to_one) 7 =
     [Some ''B'', Some ''A'', Some ''A'', Some ''A'']"
  "group_values (deployment_corps in_box cars_example three_to_one) 8 = []"
  by (simp_all add: group_values_def deployment_corps_def sjoin_within_def in_box_def
      cars_example_def three_to_one_def dep_def has_coordinates_def)

lemma three_to_one_A:
  "corporacion_de (asignar_corporacion_geografica in_box (With_nombre_car cars_example)
     three_to_one) 7 = Some ''A''"
proof -
  have "agg_mode [Some ''B'', Some ''A'', Some ''A'', Some ''A''] = Some ''A''"
    by (rule agg_mode_plurality) auto
  then show ?thesis by (simp add: corporacion_de_asignar three_to_one_rows)
qed

lemma tie_rows:
  "group_values (deployment_corps in_box cars_example tie_example) 7 = [Some ''B'', Some ''A'']"
  by (simp add: group_values_def deployment_corps_def sjoin_within_def in_box_def
      cars_example_def tie_example_def dep_def has_coordinates_def)

lemma A_less_B: "''A'' < ''B''"
  by (simp add: less_char_def)

text \<open>
  C3, the tie rule as claimed. \<open>Series.mode()\<close> returns the modes in sorted order,
  so \<open>mode()[0]\<close> is the smallest of the tied names, not the one met first: for a
  project with one deployment in B followed by one in A, the assigner answers A, and
  the first most frequent name in encounter order is B.
\<close>

theorem asignar_tie_not_first_encountered:
  "corporacion_de (asignar_corporacion_geografica in_box (With_nombre_car cars_example)
     tie_example) 7 = Some ''A'' \<and>
   first_encountered_mode (group_values (deployment_corps in_box cars_example tie_example) 7) =
     Some ''B''"
proof
  have "series_mode [Some ''B'', Some ''A''] = [''A'', ''B'']"
    using A_less_B by (simp add: series_mode_def List.map_filter_simps)
  then have "agg_mode [Some ''B'', Some ''A''] = Some ''A''" by (simp add: agg_mode_def)
  then show "corporacion_de (asignar_corporacion_geografica in_box (With_nombre_car cars_example)
     tie_example) 7 = Some ''A''"
    by (simp add: corporacion_de_asignar tie_rows)
  show "first_encountered_mode (group_values (deployment_corps in_box cars_example tie_example) 7) =
     Some ''B''"
    by (simp add: tie_rows first_encountered_mode_def List.map_filter_simps)
qed


text \<open>
  C3. With the polygons read, the jurisdiction that the rows of a project get is the
  mode of the jurisdictions of the project's rows of the spatial join: when it is not
  null it occurs among them, no other name occurs more often, and among the names that
  occur as often it is the smallest in sorted order; it is null exactly when all of
  them are null, in particular when the project has no deployment with coordinates. A
  name that occurs more often than every other name is the one assigned, so a project
  split 3 to 1 between A and B gets A. A deployment without longitude or latitude has
  no row in the join: the join of all deployments is the join of those with
  coordinates.
\<close>

theorem asignar_corporacion_moda:
  "(let ev = group_values (deployment_corps is_within gdf deps) p;
        assigned = corporacion_de
          (asignar_corporacion_geografica is_within (With_nombre_car gdf) deps) p
    in assigned = agg_mode ev \<and>
       (\<forall>j. assigned = Some j \<longrightarrow>
          Some j \<in> set ev \<and>
          (\<forall>j'. count_list ev (Some j') \<le> count_list ev (Some j)) \<and>
          (\<forall>j'. count_list ev (Some j') = count_list ev (Some j) \<longrightarrow> j \<le> j')) \<and>
       (assigned = None \<longleftrightarrow> (\<forall>c \<in> set ev. c = None)) \<and>
       (\<forall>a. Some a \<in> set ev \<and>
            (\<forall>j'. j' \<noteq> a \<longrightarrow> count_list ev (Some j') < count_list ev (Some a)) \<longrightarrow>
            assigned = Some a) \<and>
       ((\<forall>d \<in> set deps. project_id d = p \<longrightarrow> \<not> has_coordinates d) \<longrightarrow> assigned = None)) \<and>
   (\<forall>d. \<not> has_coordinates d \<longrightarrow> sjoin_within is_within gdf d = []) \<and>
   deployment_corps is_within gdf deps =
     deployment_corps is_within gdf (filter has_coordinates deps) \<and>
   corporacion_de (asignar_corporacion_geografica in_box (With_nombre_car cars_example)
     three_to_one) 7 = Some ''A''"
proof -
  define ev where "ev = group_values (deployment_corps is_within gdf deps) p"
  define assigned where "assigned = corporacion_de
          (asignar_corporacion_geografica is_within (With_nombre_car gdf) deps) p"
  have a1: "assigned = agg_mode ev"
    by (simp add: assigned_def ev_def corporacion_de_asignar)
  have a2: "\<forall>j. assigned = Some j \<longrightarrow>
          Some j \<in> set ev \<and>
          (\<forall>j'. count_list ev (Some j') \<le> count_list ev (Some j)) \<and>
          (\<forall>j'. count_list ev (Some j') = count_list ev (Some j) \<longrightarrow> j \<le> j')"
    using agg_mode_most_frequent[of ev] by (simp add: a1)
  have a3: "assigned = None \<longleftrightarrow> (\<forall>c \<in> set ev. c = None)"
    by (simp add: a1 agg_mode_None)
  have a4: "\<forall>a. Some a \<in> set ev \<and>
            (\<forall>j'. j' \<noteq> a \<longrightarrow> count_list ev (Some j') < count_list ev (Some a)) \<longrightarrow>
            assigned = Some a"
    using agg_mode_plurality[of _ ev] by (simp add: a1)
  have a5: "(\<forall>d \<in> set deps. project_id d = p \<longrightarrow> \<not> has_coordinates d) \<longrightarrow> assigned = None"
  proof
    assume "\<forall>d \<in> set deps. project_id d = p \<longrightarrow> \<not> has_coordinates d"
    then have "ev = []" unfolding ev_def by (rule group_values_no_coordinates)
    with a3 show "assigned = None" by simp
  qed
  have b: "\<forall>d. \<not> has_coordinates d \<longrightarrow> sjoin_within is_within gdf d = []"
    by (simp add: sjoin_without_coordinates)
  show ?thesis
    unfolding Let_def
    using a1 a2 a3 a4 a5 b deployment_corps_valid_only[of is_within gdf deps] three_to_one_A
    unfolding ev_def assigned_def
    by blast
qed

theorem asignar_corporacion_moda_witness:
  "group_values (deployment_corps in_box cars_example three_to_one) 7 =
     [Some ''B'', Some ''A'', Some ''A'', Some ''A''] \<and>
   corporacion_de (asignar_corporacion_geografica in_box (With_nombre_car cars_example)
     three_to_one) 7 = agg_mode [Some ''B'', Some ''A'', Some ''A'', Some ''A''] \<and>
   \<not> has_coordinates (dep ''d6'' 8 None None) \<and>
   corporacion_de (asignar_corporacion_geografica in_box (With_nombre_car cars_example)
     three_to_one) 8 = None"
proof -
  have a7: "corporacion_de (asignar_corporacion_geografica in_box (With_nombre_car cars_example)
      three_to_one) 7 =
    agg_mode (group_values (deployment_corps in_box cars_example three_to_one) 7)"
    using asignar_corporacion_moda [of in_box cars_example three_to_one 7, THEN conjunct1]
    unfolding Let_def by blast
  have none8: "\<forall>d \<in> set three_to_one. project_id d = 8 \<longrightarrow> \<not> has_coordinates d"
    by (simp add: three_to_one_def dep_def has_coordinates_def)
  have a8: "corporacion_de (asignar_corporacion_geografica in_box (With_nombre_car cars_example)
      three_to_one) 8 = None"
    using asignar_corporacion_moda [of in_box cars_example three_to_one 8, THEN conjunct1]
      none8
    unfolding Let_def by blast
  show ?thesis
    using a7 a8 by (simp add: three_to_one_rows has_coordinates_def dep_def)
qed

lemma asignar_degraded:
  assumes "shp = Not_found \<or> shp = Read_error \<or> (\<exists>ps. shp = Without_nombre_car ps)"
  shows "asignar_corporacion_geografica is_within shp deps = crear_corporaciones_null deps"
  using assms by (auto simp: asignar_corporacion_geografica_def)

lemma crear_corporaciones_null_props:
  "map fst (crear_corporaciones_null deps) = unique (map project_id deps)"
  "distinct (map fst (crear_corporaciones_null deps))"
  "set (map fst (crear_corporaciones_null deps)) = project_id ` set deps"
  "\<forall>pc \<in> set (crear_corporaciones_null deps). snd pc = None"
  by (auto simp: crear_corporaciones_null_def comp_def)

lemma resultado_not_empty: "generar_todas_las_tablas e a b c \<noteq> []"
  by (simp add: generar_todas_las_tablas_def split: prod.splits)

lemma tras_asignar_starts:
  "Merge_corporacion \<in> set (snd (tras_asignar e data deployments projects pc))"
  by (simp add: tras_asignar_def split: option.splits)

lemma tras_asignar_completes:
  assumes "merge_corporacion e data pc = Some data1"
    and "preparacion_final e data1 = Some data2"
    and "validaciones e"
    and "list_all (\<lambda>c. c \<in> set (labels data2)) resumen_columnas"
  shows "tras_asignar e data deployments projects pc =
    (Returned True, [Merge_corporacion, Preparacion_final, Generar_parquets, Validar, Resumen])"
  using assms by (simp add: tras_asignar_def resultado_not_empty)

lemma main_reaches_asignar:
  assumes "leer_referencias e = Some (projects, deployments)" "leer_imagenes e = Some images"
    "\<not> empty images" "\<not> empty (data_3_4 e images deployments)"
    "\<not> empty (data_3_5 e images deployments)"
    "merge_with_projects e (data_3_5 e images deployments) projects = Some data"
  shows "main e =
    (fst (tras_asignar e data deployments projects
            (asignar_corporacion_geografica (env_within e) (env_shapefile e)
               (env_filas_deployments e deployments))),
     fases_1_3 @ [Filtrar_fechas, Merge_projects, Asignar_corporacion] @
     snd (tras_asignar e data deployments projects
            (asignar_corporacion_geografica (env_within e) (env_shapefile e)
               (env_filas_deployments e deployments))))"
  using assms by (simp add: main_def Let_def split: prod.splits)

lemma main_halts:
  assumes "leer_referencias e = Some (projects, deployments)"
  shows "leer_imagenes e = None \<Longrightarrow>
           main e = (Returned False, [Cargar_referencias, Cargar_imagenes])"
    and "leer_imagenes e = Some images \<Longrightarrow> empty images \<Longrightarrow>
           main e = (Returned False, [Cargar_referencias, Cargar_imagenes])"
    and "leer_imagenes e = Some images \<Longrightarrow> \<not> empty images \<Longrightarrow>
           empty (data_3_4 e images deployments) \<Longrightarrow> main e = (Returned False, fases_1_3)"
    and "leer_imagenes e = Some images \<Longrightarrow> \<not> empty images \<Longrightarrow>
           \<not> empty (data_3_4 e images deployments) \<Longrightarrow>
           empty (data_3_5 e images deployments) \<Longrightarrow>
           main e = (Returned False, fases_1_3 @ [Filtrar_fechas])"
  using assms by (simp_all add: main_def)

text \<open>
  C4. When the polygon file is not found, cannot be read, or has no attribute
  \<open>NOMBRE_CAR\<close>, the assigner returns the null table: one row for each project of
  the deployments, in order of first appearance and without repetition, each with a
  null jurisdiction, so every project is merged with null. A run with such a polygon
  file that reaches the assigner neither returns nor raises there: it goes on to the
  merge of the jurisdictions with the null table, and from there it is the rest of the
  run on that table. When neither that merge, nor the final preparation, nor a
  validation raises and the columns of the final summary are there, the run goes
  through every stage and returns true.
\<close>

theorem asignar_degrades_to_null:
  "(shp = Not_found \<or> shp = Read_error \<or> (\<exists>ps. shp = Without_nombre_car ps) \<longrightarrow>
      (let result = asignar_corporacion_geografica is_within shp deps
       in result = crear_corporaciones_null deps \<and>
          map fst result = unique (map project_id deps) \<and>
          distinct (map fst result) \<and>
          set (map fst result) = project_id ` set deps \<and>
          (\<forall>pc \<in> set result. snd pc = None) \<and>
          (\<forall>p. corporacion_de result p = None))) \<and>
   ((env_shapefile e = Not_found \<or> env_shapefile e = Read_error \<or>
       (\<exists>ps. env_shapefile e = Without_nombre_car ps)) \<and>
    leer_referencias e = Some (projects, deployments) \<and> leer_imagenes e = Some images \<and>
    \<not> empty images \<and> \<not> empty (data_3_4 e images deployments) \<and>
    \<not> empty (data_3_5 e images deployments) \<and>
    merge_with_projects e (data_3_5 e images deployments) projects = Some data \<longrightarrow>
      (let nulls = crear_corporaciones_null (env_filas_deployments e deployments);
           resto = tras_asignar e data deployments projects nulls
       in main e =
            (fst resto,
             fases_1_3 @ [Filtrar_fechas, Merge_projects, Asignar_corporacion] @ snd resto) \<and>
          Asignar_corporacion \<in> set (snd (main e)) \<and>
          Merge_corporacion \<in> set (snd (main e)) \<and>
          (\<forall>data1 data2.
             merge_corporacion e data nulls = Some data1 \<and>
             preparacion_final e data1 = Some data2 \<and> validaciones e \<and>
             list_all (\<lambda>c. c \<in> set (labels data2)) resumen_columnas \<longrightarrow>
             main e = (Returned True, todas_las_fases))))"
proof (intro conjI impI)
  assume d: "shp = Not_found \<or> shp = Read_error \<or> (\<exists>ps. shp = Without_nombre_car ps)"
  have r: "asignar_corporacion_geografica is_within shp deps = crear_corporaciones_null deps"
    using d by (rule asignar_degraded)
  show "let result = asignar_corporacion_geografica is_within shp deps
       in result = crear_corporaciones_null deps \<and>
          map fst result = unique (map project_id deps) \<and>
          distinct (map fst result) \<and>
          set (map fst result) = project_id ` set deps \<and>
          (\<forall>pc \<in> set result. snd pc = None) \<and>
          (\<forall>p. corporacion_de result p = None)"
    unfolding Let_def r
    using crear_corporaciones_null_props[of deps] corporacion_de_null[of deps]
    by blast
next
  assume a: "(env_shapefile e = Not_found \<or> env_shapefile e = Read_error \<or>
       (\<exists>ps. env_shapefile e = Without_nombre_car ps)) \<and>
    leer_referencias e = Some (projects, deployments) \<and> leer_imagenes e = Some images \<and>
    \<not> empty images \<and> \<not> empty (data_3_4 e images deployments) \<and>
    \<not> empty (data_3_5 e images deployments) \<and>
    merge_with_projects e (data_3_5 e images deployments) projects = Some data"
  define nulls where "nulls = crear_corporaciones_null (env_filas_deployments e deployments)"
  define resto where "resto = tras_asignar e data deployments projects nulls"
  have r: "asignar_corporacion_geografica (env_within e) (env_shapefile e)
      (env_filas_deployments e deployments) = nulls"
    unfolding nulls_def using a by (intro asignar_degraded) blast
  have m: "main e =
      (fst resto, fases_1_3 @ [Filtrar_fechas, Merge_projects, Asignar_corporacion] @ snd resto)"
    unfolding resto_def r[symmetric] using a by (intro main_reaches_asignar) blast+
  have s: "Merge_corporacion \<in> set (snd resto)"
    unfolding resto_def by (rule tras_asignar_starts)
  have c: "main e = (Returned True, todas_las_fases)"
    if "merge_corporacion e data nulls = Some data1 \<and>
        preparacion_final e data1 = Some data2 \<and> validaciones e \<and>
        list_all (\<lambda>c. c \<in> set (labels data2)) resumen_columnas" for data1 data2
  proof -
    have "resto = (Returned True,
        [Merge_corporacion, Preparacion_final, Generar_parquets, Validar, Resumen])"
      unfolding resto_def using that
      by (intro tras_asignar_completes[of e data nulls data1 data2]) blast+
    then show ?thesis using m by (simp add: todas_las_fases_def)
  qed
  show "let nulls = crear_corporaciones_null (env_filas_deployments e deployments);
           resto = tras_asignar e data deployments projects nulls
       in main e =
            (fst resto,
             fases_1_3 @ [Filtrar_fechas, Merge_projects, Asignar_corporacion] @ snd resto) \<and>
          Asignar_corporacion \<in> set (snd (main e)) \<and>
          Merge_corporacion \<in> set (snd (main e)) \<and>
          (\<forall>data1 data2.
             merge_corporacion e data nulls = Some data1 \<and>
             preparacion_final e data1 = Some data2 \<and> validaciones e \<and>
             list_all (\<lambda>c. c \<in> set (labels data2)) resumen_columnas \<longrightarrow>
             main e = (Returned True, todas_las_fases))"
    unfolding Let_def nulls_def[symmetric] resto_def[symmetric]
  proof (intro conjI allI impI)
    show "main e =
        (fst resto,
         fases_1_3 @ [Filtrar_fechas, Merge_projects, Asignar_corporacion] @ snd resto)"
      by (rule m)
    show "Asignar_corporacion \<in> set (snd (main e))" using m by simp
    show "Merge_corporacion \<in> set (snd (main e))" using m s by simp
    show "main e = (Returned True, todas_las_fases)"
      if "merge_corporacion e data nulls = Some data1 \<and>
          preparacion_final e data1 = Some data2 \<and> validaciones e \<and>
          list_all (\<lambda>c. c \<in> set (labels data2)) resumen_columnas" for data1 data2
      using that by (rule c)
  qed
qed

text \<open>
  C8. When the reference tables cannot be read the run returns false at once. With the
  reference tables read, if the images cannot be loaded or are empty, or the data is
  empty after the subproject filter, or it is empty after the date-consistency filter,
  the run returns false and neither the export nor the validation (nor the jurisdiction
  assigner) has run.
\<close>

theorem main_halts_on_empty:
  "(leer_referencias e = None \<longrightarrow> main e = (Returned False, [Cargar_referencias])) \<and>
   (leer_referencias e = Some (projects, deployments) \<longrightarrow>
      (leer_imagenes e = None \<or> (\<exists>images. leer_imagenes e = Some images \<and> empty images) \<or>
       (\<exists>images. leer_imagenes e = Some images \<and> \<not> empty images \<and>
                 empty (data_3_4 e images deployments)) \<or>
       (\<exists>images. leer_imagenes e = Some images \<and> \<not> empty images \<and>
                 \<not> empty (data_3_4 e images deployments) \<and>
                 empty (data_3_5 e images deployments)) \<longrightarrow>
       fst (main e) = Returned False \<and> Generar_parquets \<notin> set (snd (main e)) \<and>
       Validar \<notin> set (snd (main e)) \<and> Asignar_corporacion \<notin> set (snd (main e))))"
proof (intro conjI impI)
  show "main e = (Returned False, [Cargar_referencias])" if "leer_referencias e = None"
    using that by (simp add: main_def)
next
  assume r: "leer_referencias e = Some (projects, deployments)"
  assume "leer_imagenes e = None \<or> (\<exists>images. leer_imagenes e = Some images \<and> empty images) \<or>
       (\<exists>images. leer_imagenes e = Some images \<and> \<not> empty images \<and>
                 empty (data_3_4 e images deployments)) \<or>
       (\<exists>images. leer_imagenes e = Some images \<and> \<not> empty images \<and>
                 \<not> empty (data_3_4 e images deployments) \<and>
                 empty (data_3_5 e images deployments))"
  then have "main e = (Returned False, [Cargar_referencias, Cargar_imagenes]) \<or>
      main e = (Returned False, fases_1_3) \<or>
      main e = (Returned False, fases_1_3 @ [Filtrar_fechas])"
    using main_halts[OF r] by blast
  then show "fst (main e) = Returned False" "Generar_parquets \<notin> set (snd (main e))"
    "Validar \<notin> set (snd (main e))" "Asignar_corporacion \<notin> set (snd (main e))"
    by (auto simp: fases_1_3_def)
qed

lemma toy_data_3_4:
  "data_3_4 (toy_env merged shp) images deployments =
     filtrar_por_subproject_valido merged ''subproject_name''"
  by (simp add: data_3_4_def toy_env_def)

lemma toy_subproject_2025:
  "filtrar_por_subproject_valido merged_2025 ''subproject_name'' = merged_2025"
  by (simp add: filtrar_por_subproject_valido_def merged_2025_def merged_columns_def labels_def
      get_def cell_at_def validar_subproject_name_def char_tests)

lemma toy_subproject_2019:
  "filtrar_por_subproject_valido merged_2019 ''subproject_name'' = merged_2019"
  by (simp add: filtrar_por_subproject_valido_def merged_2019_def merged_columns_def labels_def
      get_def cell_at_def validar_subproject_name_def char_tests)

lemma toy_fechas_2025:
  "filtrar_fechas_inconsistentes g other merged_2025 ''photo_datetime'' ''subproject_name'' =
     merged_2025"
  by (simp add: filtrar_fechas_inconsistentes_def merged_2025_def merged_columns_def frame_eval
      mask_valido_def year_diff_def)

lemma toy_fechas_2019:
  "filtrar_fechas_inconsistentes g other merged_2019 ''photo_datetime'' ''subproject_name'' =
     merged_2019\<lparr>rows := []\<rparr>"
  by (simp add: filtrar_fechas_inconsistentes_def merged_2019_def merged_columns_def frame_eval
      mask_valido_def year_diff_def)

lemma toy_reads:
  "leer_referencias (toy_env merged shp) =
     Some (\<lparr>columns = [], rows = []\<rparr>, \<lparr>columns = [], rows = []\<rparr>)"
  "leer_imagenes (toy_env merged shp) = Some raw_example"
  "\<not> empty raw_example"
  by (simp_all add: toy_env_def empty_def raw_example_def)

lemma toy_fields:
  "env_shapefile (toy_env merged shp) = shp"
  "env_within (toy_env merged shp) = in_box"
  "env_filas_deployments (toy_env merged shp) deployments = three_to_one"
  "validaciones (toy_env merged shp)"
  "merge_with_projects (toy_env merged shp) data \<lparr>columns = [], rows = []\<rparr> = Some data"
  "merge_corporacion (toy_env merged shp) data pc =
     (if ''project_id'' \<notin> set (labels data) then None
      else case merge_izquierdo data pc of
             None \<Rightarrow> None
           | Some data \<Rightarrow> if ''Corporacion'' \<notin> set (labels data) then None else Some data)"
  "preparacion_final (toy_env merged shp) data =
     Some (if ''subproject_name'' \<notin> set (labels data)
           then assign_column data ''subproject_name'' Object (map (\<lambda>row. S []) (rows data))
           else data)"
  by (simp_all add: toy_env_def validaciones_def merge_with_projects_def merge_corporacion_def
      preparacion_final_def labels_def)

lemma toy_merge:
  "corporacion_de pc 7 = c \<Longrightarrow>
   merge_izquierdo merged_2025 pc =
     Some (con_corporacion (case c of None \<Rightarrow> NA | Some n \<Rightarrow> S n))"
  by (simp add: merge_izquierdo_def merged_2025_def merged_columns_def labels_def get_def
      cell_at_def assign_column_def con_corporacion_def)

theorem asignar_degrades_to_null_witness:
  "asignar_corporacion_geografica in_box Read_error three_to_one = [(7, None), (8, None)] \<and>
   env_shapefile (toy_env merged_2025 Read_error) = Read_error \<and>
   \<not> empty (data_3_5 (toy_env merged_2025 Read_error) raw_example \<lparr>columns = [], rows = []\<rparr>) \<and>
   merge_corporacion (toy_env merged_2025 Read_error) merged_2025 [(7, None), (8, None)] =
     Some (con_corporacion NA) \<and>
   merge_corporacion (toy_env merged_2025 Read_error) merged_2025
     (asignar_corporacion_geografica in_box (With_nombre_car cars_example) three_to_one) =
     Some (con_corporacion (S ''A'')) \<and>
   main (toy_env merged_2025 Read_error) = (Returned True, todas_las_fases)"
proof -
  let ?e = "toy_env merged_2025 Read_error"
  let ?f = "\<lparr>columns = [], rows = []\<rparr> :: frame"
  have n: "crear_corporaciones_null three_to_one = [(7, None), (8, None)]"
    by (simp add: crear_corporaciones_null_def unique_def three_to_one_def dep_def)
  have d4: "\<not> empty (data_3_4 ?e raw_example ?f)"
    by (simp add: toy_data_3_4 toy_subproject_2025)
      (simp add: empty_def merged_2025_def merged_columns_def)
  have e5: "data_3_5 ?e raw_example ?f = merged_2025"
    by (simp add: data_3_5_def toy_data_3_4 toy_subproject_2025 toy_fechas_2025)
  have d5: "\<not> empty (data_3_5 ?e raw_example ?f)"
    unfolding e5 by (simp add: empty_def merged_2025_def merged_columns_def)
  have l: "''project_id'' \<in> set (labels merged_2025)"
    by (simp add: labels_def merged_2025_def merged_columns_def)
  have lc: "''Corporacion'' \<in> set (labels (con_corporacion c))"
    "''subproject_name'' \<in> set (labels (con_corporacion c))" for c
    by (simp_all add: labels_def con_corporacion_def merged_columns_def)
  have m0: "merge_corporacion ?e merged_2025 pc =
      Some (con_corporacion (case corporacion_de pc 7 of None \<Rightarrow> NA | Some n \<Rightarrow> S n))" for pc
    by (simp add: toy_fields(6) l toy_merge[OF refl] lc)
  have m1: "merge_corporacion ?e merged_2025 [(7, None), (8, None)] = Some (con_corporacion NA)"
    by (simp add: m0 corporacion_de_def)
  have m2: "merge_corporacion ?e merged_2025
     (asignar_corporacion_geografica in_box (With_nombre_car cars_example) three_to_one) =
     Some (con_corporacion (S ''A''))"
    by (simp add: m0 three_to_one_A)
  have p: "preparacion_final ?e (con_corporacion NA) = Some (con_corporacion NA)"
    by (simp add: toy_fields(7) lc)
  have r: "list_all (\<lambda>c. c \<in> set (labels (con_corporacion NA))) resumen_columnas"
    by (simp add: resumen_columnas_def labels_def con_corporacion_def merged_columns_def)
  note t = asignar_degrades_to_null
    [where shp = Read_error and is_within = in_box and deps = three_to_one
       and e = ?e and images = raw_example and projects = ?f and deployments = ?f
       and data = merged_2025]
  have a: "asignar_corporacion_geografica in_box Read_error three_to_one =
      crear_corporaciones_null three_to_one"
    using t unfolding Let_def by blast
  have h: "(env_shapefile ?e = Not_found \<or> env_shapefile ?e = Read_error \<or>
       (\<exists>ps. env_shapefile ?e = Without_nombre_car ps)) \<and>
    leer_referencias ?e = Some (?f, ?f) \<and> leer_imagenes ?e = Some raw_example \<and>
    \<not> empty raw_example \<and> \<not> empty (data_3_4 ?e raw_example ?f) \<and>
    \<not> empty (data_3_5 ?e raw_example ?f) \<and>
    merge_with_projects ?e (data_3_5 ?e raw_example ?f) ?f = Some merged_2025"
    using toy_reads(1,2)[of merged_2025 Read_error] toy_reads(3) d4 d5
    by (simp add: toy_fields e5)
  have "\<forall>data1 data2.
      merge_corporacion ?e merged_2025 (crear_corporaciones_null (env_filas_deployments ?e ?f)) =
        Some data1 \<and>
      preparacion_final ?e data1 = Some data2 \<and> validaciones ?e \<and>
      list_all (\<lambda>c. c \<in> set (labels data2)) resumen_columnas \<longrightarrow>
      main ?e = (Returned True, todas_las_fases)"
    using t h unfolding Let_def by blast
  then have "main ?e = (Returned True, todas_las_fases)"
    using m1 p r by (simp add: toy_fields(3,4) n)
  then show ?thesis using a n d5 m1 m2 by (simp add: toy_fields(1))
qed

theorem main_halts_on_empty_witness:
  "leer_referencias (toy_env merged_2019 Not_found) =
     Some (\<lparr>columns = [], rows = []\<rparr>, \<lparr>columns = [], rows = []\<rparr>) \<and>
   leer_imagenes (toy_env merged_2019 Not_found) = Some raw_example \<and>
   \<not> empty raw_example \<and>
   \<not> empty (data_3_4 (toy_env merged_2019 Not_found) raw_example \<lparr>columns = [], rows = []\<rparr>) \<and>
   empty (data_3_5 (toy_env merged_2019 Not_found) raw_example \<lparr>columns = [], rows = []\<rparr>) \<and>
   fst (main (toy_env merged_2019 Not_found)) = Returned False \<and>
   Generar_parquets \<notin> set (snd (main (toy_env merged_2019 Not_found))) \<and>
   Validar \<notin> set (snd (main (toy_env merged_2019 Not_found)))"
proof -
  have d4: "\<not> empty (data_3_4 (toy_env merged_2019 Not_found) raw_example
      \<lparr>columns = [], rows = []\<rparr>)"
    by (simp add: toy_data_3_4 toy_subproject_2019)
      (simp add: empty_def merged_2019_def merged_columns_def)
  have d5: "empty (data_3_5 (toy_env merged_2019 Not_found) raw_example
      \<lparr>columns = [], rows = []\<rparr>)"
    by (simp add: data_3_5_def toy_data_3_4 toy_subproject_2019 toy_fechas_2019)
      (simp add: empty_def)
  note t = main_halts_on_empty
    [where e = "toy_env merged_2019 Not_found"
       and projects = "\<lparr>columns = [], rows = []\<rparr>"
       and deployments = "\<lparr>columns = [], rows = []\<rparr>"]
  have "fst (main (toy_env merged_2019 Not_found)) = Returned False \<and>
   Generar_parquets \<notin> set (snd (main (toy_env merged_2019 Not_found))) \<and>
   Validar \<notin> set (snd (main (toy_env merged_2019 Not_found)))"
    using t toy_reads(1,2)[of merged_2019 Not_found] toy_reads(3) d4 d5 by blast
  then show ?thesis using toy_reads(1,2)[of merged_2019 Not_found] toy_reads(3) d4 d5 by simp
qed


end
